theory Spec2Isabelle
  imports Complex_Main "HOL-Library.Sublist"
begin

section \<open>JavaScript values and strings\<close>

text \<open>
  The extension is one JavaScript module, \<^verbatim>\<open>index.js\<close>. The file holds the module
  twice, with English and with Russian messages and the same code; the line numbers below
  are those of the English copy. Values are the ones JSON decoding yields, and
  \<^verbatim>\<open>undefined\<close>. Strings are modelled as \<^typ>\<open>string\<close>. The module's own literals
  (\<^verbatim>\<open>'..'\<close>, \<^verbatim>\<open>'/'\<close>, \<^verbatim>\<open>'.json'\<close>, folder prefixes, extensions) are ASCII, and prefix,
  suffix and substring tests against them are tests on the characters. What the engine
  does to letters and white space outside ASCII is not written out here: it is a
  parameter of the model (see \<open>toLowerCase\<close> and \<open>trim\<close> below).
\<close>

definition startsWith :: "string \<Rightarrow> string \<Rightarrow> bool" where
  "startsWith s p = prefix p s"

definition endsWith :: "string \<Rightarrow> string \<Rightarrow> bool" where
  "endsWith s p = prefix (rev p) (rev s)"

fun includes_str :: "string \<Rightarrow> string \<Rightarrow> bool" where
  "includes_str [] p = (p = [])"
| "includes_str (c # cs) p = (prefix p (c # cs) \<or> includes_str cs p)"

definition upperCase :: string where
  "upperCase = ''ABCDEFGHIJKLMNOPQRSTUVWXYZ''"

definition lowerCase :: string where
  "lowerCase = ''abcdefghijklmnopqrstuvwxyz''"

definition lowerChar :: "char \<Rightarrow> char" where
  "lowerChar c = (case map_of (zip upperCase lowerCase) c of Some d \<Rightarrow> d | None \<Rightarrow> c)"

text \<open>The ASCII characters among the white space and line terminators of the language.\<close>

definition isSpace :: "char \<Rightarrow> bool" where
  "isSpace c = (c \<in> set [CHR 0x09, CHR 0x0A, CHR 0x0B, CHR 0x0C, CHR 0x0D, CHR 0x20])"

text \<open>A string of ASCII characters only.\<close>

definition ascii :: "string \<Rightarrow> bool" where
  "ascii s = list_all (\<lambda>c. \<not> digit7 c) s"

definition isLetter :: "char \<Rightarrow> bool" where
  "isLetter c = (c \<in> set upperCase \<or> c \<in> set lowerCase)"

text \<open>
  Numbers are IEEE doubles in the source. Every finite double is a rational, so a number
  is NaN, an infinity or a rational; only finiteness and the sign are ever inspected.
\<close>

datatype jsnum = NaN | PosInf | NegInf | Fin rat

datatype jsval =
    JUndefined
  | JNull
  | JBool bool
  | JNum jsnum
  | JStr string
  | JArr "jsval list"
  | JObj "(string \<times> jsval) list"

text \<open>\<^verbatim>\<open>!v\<close> is \<open>\<not> truthy v\<close>.\<close>

fun truthy :: "jsval \<Rightarrow> bool" where
  "truthy JUndefined = False"
| "truthy JNull = False"
| "truthy (JBool b) = b"
| "truthy (JNum n) = (n \<noteq> NaN \<and> n \<noteq> Fin 0)"
| "truthy (JStr s) = (s \<noteq> [])"
| "truthy (JArr xs) = True"
| "truthy (JObj kvs) = True"

fun typeof :: "jsval \<Rightarrow> string" where
  "typeof JUndefined = ''undefined''"
| "typeof JNull = ''object''"
| "typeof (JBool b) = ''boolean''"
| "typeof (JNum n) = ''number''"
| "typeof (JStr s) = ''string''"
| "typeof (JArr xs) = ''object''"
| "typeof (JObj kvs) = ''object''"

text \<open>A thrown \<^verbatim>\<open>Error\<close> carries its message; a \<^verbatim>\<open>TypeError\<close> is raised by the engine.\<close>

datatype error = Error string | TypeError

section \<open>Path traversal protection\<close>

text \<open>
  \<^verbatim>\<open>validateAssetPath(filePath)\<close>, index.js lines 152-171. The regular expression
  \<^verbatim>\<open>/^[a-zA-Z]:/\<close> is a letter followed by a colon at the start of the string.
\<close>

fun driveLetter :: "string \<Rightarrow> bool" where
  "driveLetter (c # d # cs) = (isLetter c \<and> d = CHR '':'')"
| "driveLetter cs = False"

fun validateAssetPath :: "jsval \<Rightarrow> error + bool" where
  "validateAssetPath (JStr filePath) =
     (if filePath = [] then Inl (Error ''Path must be a string'')
      else if includes_str filePath ''..'' \<or> startsWith filePath ''/''
              \<or> startsWith filePath [CHR 0x5C] \<or> includes_str filePath [CHR 0x5C, CHR 0x5C]
        then Inl (Error (''Invalid file path: '' @ filePath))
      else if driveLetter filePath
        then Inl (Error (''Absolute paths forbidden: '' @ filePath))
      else Inr True)"
| "validateAssetPath v = Inl (Error ''Path must be a string'')"

section \<open>Coercions of the language\<close>

text \<open>
  Two conversions of the engine work on the decimal notation of doubles:
  \<^verbatim>\<open>StringToNumber\<close> (inside \<^verbatim>\<open>Number(v)\<close>) and \<^verbatim>\<open>Number::toString\<close> (inside
  template literals). Two string methods follow the Unicode tables:
  \<^verbatim>\<open>String.prototype.toLowerCase\<close> and \<^verbatim>\<open>String.prototype.trim\<close>. The four are
  parameters of the model; every statement below holds for each choice of them.
\<close>

record host =
  StringToNumber :: "string \<Rightarrow> jsnum"
  NumberToString :: "jsnum \<Rightarrow> string"
  StringToLowerCase :: "string \<Rightarrow> string"
  StringTrim :: "string \<Rightarrow> string"

text \<open>
  \<^verbatim>\<open>s.toLowerCase()\<close> and \<^verbatim>\<open>s.trim()\<close>. On a string of ASCII characters the first
  lowers \<open>A\<close> to \<open>Z\<close> and the second strips the six ASCII white-space characters from
  both ends; on any other string (letters with accents, Greek sigma, no-break space and
  so on) they are the engine's, whatever those do.
\<close>

definition toLowerCase :: "host \<Rightarrow> string \<Rightarrow> string" where
  "toLowerCase h s = (if ascii s then map lowerChar s else StringToLowerCase h s)"

definition trim :: "host \<Rightarrow> string \<Rightarrow> string" where
  "trim h s = (if ascii s then rev (dropWhile isSpace (rev (dropWhile isSpace s)))
               else StringTrim h s)"

text \<open>\<^verbatim>\<open>Array.prototype.join\<close> on strings.\<close>

fun join :: "string list \<Rightarrow> string \<Rightarrow> string" where
  "join [] sep = []"
| "join [x] sep = x"
| "join (x # y # ys) sep = x @ sep @ join (y # ys) sep"

fun ToString :: "host \<Rightarrow> jsval \<Rightarrow> string" where
  "ToString h JUndefined = ''undefined''"
| "ToString h JNull = ''null''"
| "ToString h (JBool b) = (if b then ''true'' else ''false'')"
| "ToString h (JNum n) = NumberToString h n"
| "ToString h (JStr s) = s"
| "ToString h (JArr xs) =
     join (map (\<lambda>x. if x = JUndefined \<or> x = JNull then [] else ToString h x) xs) '',''"
| "ToString h (JObj kvs) = ''[object Object]''"

text \<open>\<^verbatim>\<open>Number(v)\<close>: arrays and plain objects go through their string form.\<close>

fun ToNumber :: "host \<Rightarrow> jsval \<Rightarrow> jsnum" where
  "ToNumber h JUndefined = NaN"
| "ToNumber h JNull = Fin 0"
| "ToNumber h (JBool b) = Fin (if b then 1 else 0)"
| "ToNumber h (JNum n) = n"
| "ToNumber h (JStr s) = StringToNumber h s"
| "ToNumber h v = StringToNumber h (ToString h v)"

fun isFinite :: "jsnum \<Rightarrow> bool" where
  "isFinite (Fin r) = True"
| "isFinite n = False"

text \<open>\<^verbatim>\<open>n <= 0\<close>; every comparison with NaN is false.\<close>

fun le_zero :: "jsnum \<Rightarrow> bool" where
  "le_zero (Fin r) = (r \<le> 0)"
| "le_zero NegInf = True"
| "le_zero n = False"

text \<open>
  Reading a property \<^verbatim>\<open>v.k\<close> of a value decoded from JSON, for the property names the
  module reads from documents (\<^verbatim>\<open>backgroundImage\<close>, \<^verbatim>\<open>file\<close>, \<^verbatim>\<open>width\<close>, \<^verbatim>\<open>height\<close>,
  \<^verbatim>\<open>shapes\<close>, \<^verbatim>\<open>id\<close>, \<^verbatim>\<open>path\<close>, \<^verbatim>\<open>color\<close>, \<^verbatim>\<open>script\<close>, \<^verbatim>\<open>maps\<close>): an object yields its
  own property or \<^verbatim>\<open>undefined\<close>, arrays and primitives yield \<^verbatim>\<open>undefined\<close>. On \<^verbatim>\<open>null\<close>
  and \<^verbatim>\<open>undefined\<close> the read throws unless written \<^verbatim>\<open>v?.k\<close>; each use below says which
  guard of the source covers it.
\<close>

fun get :: "jsval \<Rightarrow> string \<Rightarrow> jsval" where
  "get (JObj kvs) k = (case map_of kvs k of Some v \<Rightarrow> v | None \<Rightarrow> JUndefined)"
| "get v k = JUndefined"

text \<open>Decimal notation of an array index.\<close>

definition digits :: string where
  "digits = ''0123456789''"

fun show_nat :: "nat \<Rightarrow> string" where
  "show_nat n = (if n < 10 then [digits ! n] else show_nat (n div 10) @ [digits ! (n mod 10)])"

declare show_nat.simps [simp del]

section \<open>Validation of map documents\<close>

text \<open>
  \<^verbatim>\<open>isValidColor(color)\<close>, index.js lines 141-143:
  \<^verbatim>\<open>/^#([A-Fa-f0-9]{6}|[A-Fa-f0-9]{3})$/.test(color)\<close>; \<^verbatim>\<open>test\<close> converts its argument
  to a string first.
\<close>

definition isHex :: "char \<Rightarrow> bool" where
  "isHex c = (c \<in> set ''ABCDEFabcdef0123456789'')"

fun matchesColor :: "string \<Rightarrow> bool" where
  "matchesColor [] = False"
| "matchesColor (c # ds) = (c = CHR ''#'' \<and> (length ds = 6 \<or> length ds = 3) \<and> list_all isHex ds)"

definition isValidColor :: "host \<Rightarrow> jsval \<Rightarrow> bool" where
  "isValidColor h color = matchesColor (ToString h color)"

text \<open>
  \<^verbatim>\<open>validateShape(shape, index, errors)\<close>, lines 115-139. The source pushes onto the
  array \<open>errors\<close>; the model returns the extended list. The property reads are guarded by
  the first test.
\<close>

definition validateShape :: "host \<Rightarrow> jsval \<Rightarrow> nat \<Rightarrow> string list \<Rightarrow> string list" where
  "validateShape h shape index errs =
     (if \<not> truthy shape \<or> typeof shape \<noteq> ''object''
      then errs @ [''Shape['' @ show_nat index @ '']: must be an object'']
      else
        let pfx = ''Shape['' @ show_nat index @ '']'';
            errs1 = (if \<not> truthy (get shape ''id'') \<or> \<not> truthy (get shape ''path'')
                        \<or> \<not> truthy (get shape ''color'') \<or> \<not> truthy (get shape ''script'')
                     then errs @ [pfx @ '': missing required fields (id, path, color, script)'']
                     else errs);
            errs2 = (if typeof (get shape ''script'') \<noteq> ''string''
                     then errs1 @ [pfx @ ''.script: must be a string''] else errs1);
            errs3 = (if typeof (get shape ''path'') \<noteq> ''string''
                     then errs2 @ [pfx @ ''.path: must be a string''] else errs2)
        in if \<not> isValidColor h (get shape ''color'')
           then errs3 @ [pfx @ ''.color: invalid color '' @ [CHR 0x22]
                           @ ToString h (get shape ''color'') @ [CHR 0x22]]
           else errs3)"

text \<open>\<^verbatim>\<open>map.shapes.forEach((shape, i) => validateShape(shape, i, errors))\<close>, from index \<open>i\<close> on.\<close>

fun forEachShape :: "host \<Rightarrow> jsval list \<Rightarrow> nat \<Rightarrow> string list \<Rightarrow> string list" where
  "forEachShape h [] i errs = errs"
| "forEachShape h (shape # rest) i errs = forEachShape h rest (Suc i) (validateShape h shape i errs)"

record validation =
  valid :: bool
  errors :: "string list"

text \<open>
  \<^verbatim>\<open>validateMapData(data)\<close>, lines 61-107. \<^verbatim>\<open>bg.file\<close> is read only when \<^verbatim>\<open>bg\<close> is truthy,
  width and height are read as \<^verbatim>\<open>bg?.width\<close>, \<^verbatim>\<open>bg?.height\<close>.
\<close>

definition validateMapData :: "host \<Rightarrow> jsval \<Rightarrow> validation" where
  "validateMapData h data =
     (if \<not> truthy data \<or> typeof data \<noteq> ''object''
      then \<lparr>valid = False, errors = [''Map data must be an object'']\<rparr>
      else
        let bg = get data ''backgroundImage'';
            errs1 = (if \<not> truthy bg \<or> typeof (get bg ''file'') \<noteq> ''string''
                     then [''backgroundImage.file: required and must be a string''] else []);
            width = ToNumber h (get bg ''width'');
            height = ToNumber h (get bg ''height'');
            errs2 = (if \<not> isFinite width \<or> \<not> isFinite height \<or> le_zero width \<or> le_zero height
                     then errs1 @ [''backgroundImage.width/height: must be positive numbers'']
                     else errs1);
            errs3 = (case get data ''shapes'' of
                       JArr shapes \<Rightarrow>
                         if shapes = [] then errs2 @ [''shapes: must be non-empty array'']
                         else forEachShape h shapes 0 errs2
                     | _ \<Rightarrow> errs2 @ [''shapes: must be non-empty array''])
        in \<lparr>valid = (errs3 = []), errors = errs3\<rparr>)"

section \<open>Loading and caching documents\<close>

text \<open>
  Module constants and settings, lines 22-42. Of the settings the two timeouts are the
  network's business (see \<open>fetch_outcome\<close> below) and \<^verbatim>\<open>transitionDuration\<close> is not read.
\<close>

definition extensionFolderPath :: string where
  "extensionFolderPath = ''scripts/extensions/third-party/SillyTavern-Interactive Map''"

definition DEFAULT_MAP :: string where
  "DEFAULT_MAP = ''SillyTavern.json''"

record mapSettings =
  hoverOpacity :: jsnum
  enableTooltips :: bool
  debugMode :: bool
  maxMapCache :: nat
  defaultMap :: string

definition mapSettings0 :: mapSettings where
  "mapSettings0 = \<lparr>hoverOpacity = Fin (3 / 10), enableTooltips = True, debugMode = False,
                    maxMapCache = 10, defaultMap = DEFAULT_MAP\<rparr>"

text \<open>
  What the network does with one request: the timer aborts it, \<^verbatim>\<open>fetch\<close> rejects for
  another reason, or a response arrives whose body parses as JSON or does not.
\<close>

datatype body = Malformed string | Json jsval

datatype fetch_outcome =
    Aborted
  | Rejected error
  | Response bool nat string body

type_synonym network = "string \<Rightarrow> fetch_outcome"

text \<open>\<^verbatim>\<open>fetchJsonWithTimeout(url, {timeoutMessage, treatNotOkAsEmpty})\<close>, lines 177-211.\<close>

definition fetchJsonWithTimeout :: "network \<Rightarrow> string \<Rightarrow> string \<Rightarrow> bool \<Rightarrow> error + jsval" where
  "fetchJsonWithTimeout net url timeoutMessage treatNotOkAsEmpty =
     (case net url of
        Aborted \<Rightarrow> Inl (Error timeoutMessage)
      | Rejected e \<Rightarrow> Inl e
      | Response ok status statusText b \<Rightarrow>
          if \<not> ok then
            (if treatNotOkAsEmpty then Inr JNull
             else Inl (Error (''HTTP '' @ show_nat status @ '': '' @ statusText)))
          else (case b of
                  Malformed msg \<Rightarrow> Inl (Error (''JSON parse error: '' @ msg))
                | Json data \<Rightarrow> Inr data))"

text \<open>
  \<^verbatim>\<open>mapCache\<close> is a JavaScript \<^verbatim>\<open>Map\<close>: it iterates in insertion order, so it is a list
  of key-value pairs, oldest first; \<^verbatim>\<open>has\<close> and \<^verbatim>\<open>get\<close> are \<^const>\<open>map_of\<close>.
  \<^verbatim>\<open>set\<close> on a present key keeps its place.
\<close>

type_synonym cache = "(string \<times> jsval) list"

fun Map_set :: "cache \<Rightarrow> string \<Rightarrow> jsval \<Rightarrow> cache" where
  "Map_set [] k v = [(k, v)]"
| "Map_set (p # ps) k v = (if fst p = k then (k, v) # ps else p # Map_set ps k v)"

definition Map_delete :: "cache \<Rightarrow> string \<Rightarrow> cache" where
  "Map_delete c k = filter (\<lambda>p. fst p \<noteq> k) c"

record extensionState =
  currentLoadedMap :: "string option"
  availableMaps :: jsval
  isMapLoaded :: bool
  lastError :: "error option"

record module_state =
  mapCache :: cache
  extState :: extensionState

definition initial :: module_state where
  "initial = \<lparr>mapCache = [],
              extState = \<lparr>currentLoadedMap = None, availableMaps = JArr [],
                          isMapLoaded = False, lastError = None\<rparr>\<rparr>"

text \<open>
  Lines 301-306: when the cache is full the first key of the iteration order is deleted
  (on an empty \<^verbatim>\<open>Map\<close> that key is \<^verbatim>\<open>undefined\<close> and nothing is deleted), then the new
  entry is set.
\<close>

definition cacheInsert :: "nat \<Rightarrow> cache \<Rightarrow> string \<Rightarrow> jsval \<Rightarrow> cache" where
  "cacheInsert maxSize c mapName data =
     Map_set (if length c \<ge> maxSize
              then (case c of [] \<Rightarrow> c | (firstKey, _) # _ \<Rightarrow> Map_delete c firstKey)
              else c) mapName data"

text \<open>
  \<^verbatim>\<open>loadMapData(mapName)\<close>, lines 280-314: the result, and the module state afterwards.
  The \<^verbatim>\<open>catch\<close> records the error and throws it again.
\<close>

definition loadMapData ::
  "mapSettings \<Rightarrow> host \<Rightarrow> network \<Rightarrow> string \<Rightarrow> module_state \<Rightarrow> (error + jsval) \<times> module_state" where
  "loadMapData st h net mapName s =
     (case map_of (mapCache s) mapName of
        Some cached \<Rightarrow> (Inr cached, s)
      | None \<Rightarrow>
         (let attempt =
            (case validateAssetPath (JStr mapName) of
               Inl e \<Rightarrow> Inl e
             | Inr _ \<Rightarrow>
                (case fetchJsonWithTimeout net (extensionFolderPath @ ''/'' @ mapName)
                        (''Timeout loading map: '' @ mapName) False of
                   Inl e \<Rightarrow> Inl e
                 | Inr data \<Rightarrow>
                    (let validation = validateMapData h data in
                     if \<not> valid validation
                     then Inl (Error (''Validation error: '' @ join (errors validation) ''; ''))
                     else Inr data)))
          in case attempt of
               Inl e \<Rightarrow> (Inl e, s\<lparr>extState := (extState s)\<lparr>lastError := Some e\<rparr>\<rparr>)
             | Inr data \<Rightarrow>
                 (Inr data, s\<lparr>mapCache := cacheInsert (maxMapCache st) (mapCache s) mapName data\<rparr>)))"

text \<open>
  What the module does to the cache over time: calls of \<^verbatim>\<open>loadMapData\<close>, and the
  \<^verbatim>\<open>mapCache.clear()\<close> of the refresh button (line 1611; the rest of that handler does
  not touch the cache).
\<close>

datatype request = Load string network | ClearCache

fun run :: "mapSettings \<Rightarrow> host \<Rightarrow> request list \<Rightarrow> module_state \<Rightarrow> module_state" where
  "run st h [] s = s"
| "run st h (Load mapName net # rest) s = run st h rest (snd (loadMapData st h net mapName s))"
| "run st h (ClearCache # rest) s = run st h rest (s\<lparr>mapCache := []\<rparr>)"

text \<open>
  A request that will succeed: the name passes the path check and the network answers
  the document's URL with a JSON body that passes validation.
\<close>

definition fetchable :: "host \<Rightarrow> network \<Rightarrow> string \<Rightarrow> bool" where
  "fetchable h net mapName =
     (validateAssetPath (JStr mapName) = Inr True \<and>
      (case net (extensionFolderPath @ ''/'' @ mapName) of
         Response ok status statusText (Json data) \<Rightarrow> ok \<and> valid (validateMapData h data)
       | _ \<Rightarrow> False))"

section \<open>Discovering the available maps\<close>

text \<open>
  Line 239, \<^verbatim>\<open>Array.isArray(index) ? index : (index.maps || [])\<close>. The body of
  \<^verbatim>\<open>index.json\<close> may be the JSON value \<^verbatim>\<open>null\<close>, on which \<^verbatim>\<open>index.maps\<close> throws.
\<close>

definition indexMaps :: "jsval \<Rightarrow> error + jsval" where
  "indexMaps index =
     (case index of
        JArr xs \<Rightarrow> Inr index
      | JNull \<Rightarrow> Inl TypeError
      | JUndefined \<Rightarrow> Inl TypeError
      | _ \<Rightarrow> (let maps = get index ''maps'' in Inr (if truthy maps then maps else JArr [])))"

text \<open>
  \<^verbatim>\<open>tryLoadMapsFromIndex()\<close>, lines 214-258. Everything after the \<^verbatim>\<open>fetch\<close> is inside
  the \<^verbatim>\<open>try\<close>, whose \<^verbatim>\<open>catch\<close> returns the empty array.
\<close>

definition tryLoadMapsFromIndex :: "network \<Rightarrow> error + jsval" where
  "tryLoadMapsFromIndex net =
     (case net (extensionFolderPath @ ''/index.json'') of
        Aborted \<Rightarrow> Inr (JArr [])
      | Rejected e \<Rightarrow> Inr (JArr [])
      | Response ok status statusText b \<Rightarrow>
          if \<not> ok then Inr (JArr [])
          else (case b of
                  Malformed msg \<Rightarrow> Inr (JArr [])
                | Json index \<Rightarrow>
                    (case indexMaps index of
                       Inl e \<Rightarrow> Inr (JArr [])
                     | Inr maps \<Rightarrow> Inr maps)))"

text \<open>Reading \<^verbatim>\<open>v.length\<close>.\<close>

fun lengthOf :: "jsval \<Rightarrow> error + jsval" where
  "lengthOf JUndefined = Inl TypeError"
| "lengthOf JNull = Inl TypeError"
| "lengthOf (JArr xs) = Inr (JNum (Fin (of_nat (length xs))))"
| "lengthOf (JStr s) = Inr (JNum (Fin (of_nat (length s))))"
| "lengthOf (JObj kvs) = Inr (get (JObj kvs) ''length'')"
| "lengthOf v = Inr JUndefined"

text \<open>\<^verbatim>\<open>n > 0\<close>.\<close>

fun gt_zero :: "jsnum \<Rightarrow> bool" where
  "gt_zero (Fin r) = (0 < r)"
| "gt_zero PosInf = True"
| "gt_zero n = False"

text \<open>\<^verbatim>\<open>discoverAvailableMaps()\<close>, lines 260-272.\<close>

definition discoverAvailableMaps ::
  "mapSettings \<Rightarrow> host \<Rightarrow> network \<Rightarrow> module_state \<Rightarrow> (error + jsval) \<times> module_state" where
  "discoverAvailableMaps st h net s =
     (let fallback = JArr [JStr (defaultMap st)];
          attempt =
            (case tryLoadMapsFromIndex net of
               Inl e \<Rightarrow> Inl e
             | Inr indexedMaps \<Rightarrow>
                 (case lengthOf indexedMaps of
                    Inl e \<Rightarrow> Inl e
                  | Inr len \<Rightarrow> Inr (if gt_zero (ToNumber h len) then indexedMaps else fallback)))
      in case attempt of
           Inr maps \<Rightarrow> (Inr maps, s\<lparr>extState := (extState s)\<lparr>availableMaps := maps\<rparr>\<rparr>)
         | Inl e \<Rightarrow> (Inr fallback, s\<lparr>extState := (extState s)\<lparr>availableMaps := fallback\<rparr>\<rparr>))"

section \<open>Resolving a map name\<close>

text \<open>
  The callback of \<^verbatim>\<open>availableMaps.find\<close> in \<^verbatim>\<open>findMapByName\<close>, lines 1022-1037, for an
  entry that is a string; \<open>search\<close> is the lower-cased term.
\<close>

definition nameMatches :: "host \<Rightarrow> string \<Rightarrow> string \<Rightarrow> bool" where
  "nameMatches h search mapPath =
     (let mapLower = toLowerCase h mapPath in
      mapLower = search
      \<or> endsWith mapLower (''/'' @ search @ ''.json'')
      \<or> mapLower = search @ ''.json''
      \<or> endsWith mapLower (''/'' @ search)
      \<or> mapLower = search)"

text \<open>
  \<^verbatim>\<open>Array.prototype.find\<close> with that callback: the first entry that matches, or
  \<^verbatim>\<open>undefined\<close>. On an entry that is not a string \<^verbatim>\<open>mapPath.toLowerCase()\<close> throws.
\<close>

fun findEntry :: "host \<Rightarrow> string \<Rightarrow> jsval list \<Rightarrow> error + jsval" where
  "findEntry h search [] = Inr JUndefined"
| "findEntry h search (JStr mapPath # rest) =
     (if nameMatches h search mapPath then Inr (JStr mapPath) else findEntry h search rest)"
| "findEntry h search (v # rest) = Inl TypeError"

text \<open>
  \<^verbatim>\<open>findMapByName(searchTerm)\<close>, lines 1015-1038, reading \<^verbatim>\<open>extensionState.availableMaps\<close>.
  A value that is not an array has no \<^verbatim>\<open>find\<close> method.
\<close>

definition findMapByName :: "host \<Rightarrow> jsval \<Rightarrow> string \<Rightarrow> error + jsval" where
  "findMapByName h maps searchTerm =
     (if \<not> truthy maps \<or> lengthOf maps = Inr (JNum (Fin 0)) then Inr JNull
      else (case maps of
              JArr xs \<Rightarrow>
                (case findEntry h (toLowerCase h searchTerm) xs of
                   Inl e \<Rightarrow> Inl e
                 | Inr found \<Rightarrow> Inr (if truthy found then found else JNull))
            | _ \<Rightarrow> Inl TypeError))"

text \<open>\<^verbatim>\<open>resolveMapPath(input)\<close>, lines 1045-1068; \<open>input\<close> is a string.\<close>

definition resolveMapPath :: "host \<Rightarrow> module_state \<Rightarrow> string \<Rightarrow> error + jsval" where
  "resolveMapPath h s input =
     (if input = [] then Inr JNull
      else
        let trimmed = trim h input in
        case findMapByName h (availableMaps (extState s)) trimmed of
          Inl e \<Rightarrow> Inl e
        | Inr found \<Rightarrow>
            if truthy found then Inr found
            else Inr (JStr (if \<not> endsWith (toLowerCase h trimmed) ''.json''
                            then trimmed @ ''.json'' else trimmed)))"

text \<open>
  The specification's wording of a match, for comparison: the term equals the entry, or
  the entry's file name (what follows its last slash) with or without \<^verbatim>\<open>.json\<close>,
  letter case ignored.
\<close>

definition filename :: "string \<Rightarrow> string" where
  "filename mapPath = rev (takeWhile (\<lambda>c. c \<noteq> CHR ''/'') (rev mapPath))"

definition namesEntry :: "host \<Rightarrow> string \<Rightarrow> string \<Rightarrow> bool" where
  "namesEntry h term mapPath =
     (toLowerCase h mapPath = toLowerCase h term
      \<or> toLowerCase h (filename mapPath) = toLowerCase h term
      \<or> toLowerCase h (filename mapPath) = toLowerCase h term @ ''.json'')"

section \<open>Hover colour\<close>

text \<open>
  \<^verbatim>\<open>parseInt(s, 16)\<close>: leading white space, a sign, an optional \<^verbatim>\<open>0x\<close>, then the longest
  run of hexadecimal digits; NaN when that run is empty. (Exact while the value fits a
  double's 53 bits; the handler passes two characters.)
\<close>

definition hexValue :: "char \<Rightarrow> nat" where
  "hexValue c =
     (case map_of (zip ''0123456789abcdef'' [0, 1, 2, 3, 4, 5, 6, 7, 8, 9, 10, 11, 12, 13, 14, 15])
             (lowerChar c) of
        Some n \<Rightarrow> n | None \<Rightarrow> 0)"

fun stripSign :: "string \<Rightarrow> bool \<times> string" where
  "stripSign (c # cs) = (if c = CHR ''-'' then (True, cs) else if c = CHR ''+'' then (False, cs)
                         else (False, c # cs))"
| "stripSign [] = (False, [])"

fun stripHexPrefix :: "string \<Rightarrow> string" where
  "stripHexPrefix (c # d # cs) = (if c = CHR ''0'' \<and> (d = CHR ''x'' \<or> d = CHR ''X'') then cs
                                  else c # d # cs)"
| "stripHexPrefix cs = cs"

definition parseInt16 :: "string \<Rightarrow> jsnum" where
  "parseInt16 s =
     (let (negative, rest) = stripSign (dropWhile isSpace s);
          ds = takeWhile isHex (stripHexPrefix rest);
          n = foldl (\<lambda>acc c. 16 * acc + hexValue c) 0 ds
      in if ds = [] then NaN
         else Fin (if negative then - of_nat n else of_nat n))"

text \<open>\<^verbatim>\<open>hex.substring(a, b)\<close> for \<open>a \<le> b\<close>.\<close>

definition substring :: "string \<Rightarrow> nat \<Rightarrow> nat \<Rightarrow> string" where
  "substring s a b = take (b - a) (drop a s)"

text \<open>
  \<^verbatim>\<open>handleMouseOver\<close>, lines 849-865, on the zone's \<^verbatim>\<open>dataset.originalColor\<close>: first the
  three channels (lines 851-862), then the fill it assigns.
\<close>

definition hoverRGB :: "string \<Rightarrow> jsnum \<times> jsnum \<times> jsnum" where
  "hoverRGB hex =
     (if length hex = 4
      then (parseInt16 [hex ! 1, hex ! 1], parseInt16 [hex ! 2, hex ! 2],
            parseInt16 [hex ! 3, hex ! 3])
      else (parseInt16 (substring hex 1 3), parseInt16 (substring hex 3 5),
            parseInt16 (substring hex 5 7)))"

definition handleMouseOver :: "mapSettings \<Rightarrow> host \<Rightarrow> string \<Rightarrow> string" where
  "handleMouseOver st h hex =
     (case hoverRGB hex of
        (R, G, B) \<Rightarrow>
          ''rgba('' @ NumberToString h R @ '', '' @ NumberToString h G @ '', ''
            @ NumberToString h B @ '', '' @ NumberToString h (hoverOpacity st) @ '')'')"

section \<open>Media overlays\<close>

text \<open>
  The module keeps five DOM nodes in module variables: the audio element, the image and
  its close button, the video and its close button. A node is modelled by the attributes
  the module reads and writes (\<open>paused\<close> is false from a \<^verbatim>\<open>play()\<close> that the browser lets
  start until the next \<^verbatim>\<open>pause()\<close> or \<^verbatim>\<open>load()\<close>), and by the answers to the two
  containment queries it makes:
  \<^verbatim>\<open>document.body.contains(node)\<close> (\<open>attached\<close>) and \<^verbatim>\<open>container.contains(node)\<close>
  for the map window found by \<^verbatim>\<open>document.querySelector('#map .dragContent') ||
  document.getElementById('map')\<close> (\<open>inContainer\<close>). The page has a \<^verbatim>\<open>document.body\<close>
  throughout: the extension starts from jQuery's ready callback and appends its audio
  element to it. The DOM calls made (\<^verbatim>\<open>pause\<close>, \<^verbatim>\<open>load\<close>, \<^verbatim>\<open>removeAttribute\<close>, writes of
  \<^verbatim>\<open>src\<close>, \<^verbatim>\<open>currentTime\<close> and \<^verbatim>\<open>style.display\<close>) do not throw, and the source wraps them
  in \<^verbatim>\<open>try\<close>/\<^verbatim>\<open>catch\<close> besides, so the functions below return a state and never an
  error. Geometry (\<^verbatim>\<open>resizeVideoToSvg\<close>, \<^verbatim>\<open>sizePct\<close>), event listeners, console and toastr
  output are outside the model.
\<close>

record element =
  attached :: bool
  inContainer :: bool
  src :: "string option"
  paused :: bool
  currentTime :: rat
  display :: string
  muted :: bool
  looping :: bool
  autoplay :: bool

record media =
  mapAudioElement :: "element option"
  mapImageElement :: "element option"
  mapImageCloseButton :: "element option"
  mapVideoElement :: "element option"
  mapVideoCloseButton :: "element option"
  container :: bool
  resizeListener :: bool

text \<open>A node fresh from \<^verbatim>\<open>document.createElement\<close>.\<close>

definition createElement :: element where
  "createElement = \<lparr>attached = False, inContainer = False, src = None, paused = True,
                     currentTime = 0, display = [], muted = False, looping = False,
                     autoplay = False\<rparr>"

definition media0 :: media where
  "media0 = \<lparr>mapAudioElement = None, mapImageElement = None, mapImageCloseButton = None,
             mapVideoElement = None, mapVideoCloseButton = None, container = False,
             resizeListener = False\<rparr>"

text \<open>\<^verbatim>\<open>container.appendChild(node)\<close>; the container is in the document.\<close>

definition appendToContainer :: "element \<Rightarrow> element" where
  "appendToContainer e = e\<lparr>attached := True, inContainer := True\<rparr>"

subsection \<open>Audio\<close>

text \<open>\<^verbatim>\<open>getOrCreateMapAudioElement()\<close>, lines 335-351; the element returned is
  \<open>mapAudioElement\<close> of the resulting state.\<close>

definition getOrCreateMapAudioElement :: "media \<Rightarrow> media" where
  "getOrCreateMapAudioElement s =
     (case mapAudioElement s of
        Some a \<Rightarrow>
          if attached a then s
          else s\<lparr>mapAudioElement := Some (createElement\<lparr>display := ''none'', attached := True\<rparr>)\<rparr>
      | None \<Rightarrow> s\<lparr>mapAudioElement := Some (createElement\<lparr>display := ''none'', attached := True\<rparr>)\<rparr>)"

text \<open>\<^verbatim>\<open>stopCurrentMapAudio()\<close>, lines 356-367.\<close>

definition stopCurrentMapAudio :: "media \<Rightarrow> media" where
  "stopCurrentMapAudio s =
     (case mapAudioElement s of
        None \<Rightarrow> s
      | Some a \<Rightarrow>
          if \<not> attached a then s
          else s\<lparr>mapAudioElement := Some (a\<lparr>paused := True, currentTime := 0\<rparr>)\<rparr>)"

text \<open>
  The path built from a media name, common to the three players (lines 378-396, 539-555,
  736-750): trimmed, put under the kind's folder, given the default extension when it has
  none of the known ones.
\<close>

definition mediaPath :: "host \<Rightarrow> string \<Rightarrow> string list \<Rightarrow> string \<Rightarrow> string \<Rightarrow> string" where
  "mediaPath h folder exts defaultExt name =
     (let relativePath = trim h name;
          relativePath = (if \<not> startsWith (toLowerCase h relativePath) folder
                          then folder @ relativePath else relativePath);
          lower = toLowerCase h relativePath;
          hasExt = list_ex (endsWith lower) exts
      in if \<not> hasExt then relativePath @ defaultExt else relativePath)"

text \<open>
  \<^verbatim>\<open>playMapSound(soundFileName)\<close>, lines 374-442. \<open>plays\<close> says whether the browser
  lets \<^verbatim>\<open>audio.play()\<close> start. Every error inside is caught and reported: a name without
  a \<^verbatim>\<open>trim\<close> method, a rejected path.
\<close>

definition playMapSound :: "host \<Rightarrow> bool \<Rightarrow> jsval \<Rightarrow> media \<Rightarrow> media" where
  "playMapSound h plays soundFileName s =
     (if \<not> truthy soundFileName then s
      else (case soundFileName of
              JStr name \<Rightarrow>
                (let relativePath =
                       mediaPath h ''sounds/'' [''.mp3'', ''.ogg'', ''.wav'', ''.m4a'', ''.webm'']
                         ''.mp3'' name
                 in case validateAssetPath (JStr relativePath) of
                      Inl e \<Rightarrow> s
                    | Inr ok \<Rightarrow>
                       (let audioSrc = extensionFolderPath @ ''/'' @ relativePath;
                            s1 = stopCurrentMapAudio (getOrCreateMapAudioElement s)
                        in s1\<lparr>mapAudioElement :=
                                map_option (\<lambda>audio. audio\<lparr>src := Some audioSrc, currentTime := 0,
                                                              paused := \<not> plays\<rparr>)
                                  (mapAudioElement s1)\<rparr>))
            | _ \<Rightarrow> s))"

subsection \<open>Image\<close>

text \<open>
  \<^verbatim>\<open>getOrCreateMapImageElement()\<close>, lines 451-507: whether an element is returned (the
  one in \<open>mapImageElement\<close> of the resulting state), and that state.
\<close>

definition getOrCreateMapImageElement :: "media \<Rightarrow> bool \<times> media" where
  "getOrCreateMapImageElement s =
     (if \<not> container s then (False, s)
      else if (case mapImageElement s of Some img \<Rightarrow> inContainer img | None \<Rightarrow> False)
      then (True,
            (case mapImageCloseButton s of
               Some btn \<Rightarrow>
                 if \<not> inContainer btn
                 then s\<lparr>mapImageCloseButton := Some (appendToContainer btn)\<rparr> else s
             | None \<Rightarrow> s))
      else
        (let img = appendToContainer (createElement\<lparr>display := ''none''\<rparr>);
             btn = (case mapImageCloseButton s of Some b \<Rightarrow> b | None \<Rightarrow> createElement)
         in (True, s\<lparr>mapImageElement := Some img,
                     mapImageCloseButton := Some ((appendToContainer btn)\<lparr>display := ''none''\<rparr>)\<rparr>)))"

text \<open>\<^verbatim>\<open>stopCurrentMapImage()\<close>, lines 512-527.\<close>

definition stopCurrentMapImage :: "media \<Rightarrow> media" where
  "stopCurrentMapImage s =
     (let s1 = (case mapImageElement s of
                  Some img \<Rightarrow>
                    if attached img
                    then s\<lparr>mapImageElement := Some (img\<lparr>src := None, display := ''none''\<rparr>)\<rparr>
                    else s
                | None \<Rightarrow> s)
      in case mapImageCloseButton s1 of
           Some btn \<Rightarrow>
             if attached btn then s1\<lparr>mapImageCloseButton := Some (btn\<lparr>display := ''none''\<rparr>)\<rparr>
             else s1
         | None \<Rightarrow> s1)"

text \<open>
  \<^verbatim>\<open>showMapImage(imageName, opts)\<close>, lines 535-603. The image's parent is the container
  it was appended to, so \<^verbatim>\<open>img.parentElement.contains(mapImageCloseButton)\<close> is the
  button's \<open>inContainer\<close>.
\<close>

definition showMapImage :: "host \<Rightarrow> jsval \<Rightarrow> media \<Rightarrow> media" where
  "showMapImage h imageName s =
     (if \<not> truthy imageName then s
      else (case imageName of
              JStr name \<Rightarrow>
                (let relativePath =
                       mediaPath h ''images/'' [''.png'', ''.jpg'', ''.jpeg'', ''.webp'', ''.gif'']
                         ''.png'' name
                 in case validateAssetPath (JStr relativePath) of
                      Inl e \<Rightarrow> s
                    | Inr ok \<Rightarrow>
                       (let imgSrc = extensionFolderPath @ ''/'' @ relativePath
                        in case getOrCreateMapImageElement s of
                             (False, s1) \<Rightarrow> s1
                           | (True, s1) \<Rightarrow>
                              (let s2 = stopCurrentMapImage s1;
                                   s3 = s2\<lparr>mapImageElement :=
                                            map_option (\<lambda>img. img\<lparr>display := ''block'',
                                                                    src := Some imgSrc\<rparr>)
                                              (mapImageElement s2)\<rparr>
                               in case mapImageCloseButton s3 of
                                    Some btn \<Rightarrow>
                                      if inContainer btn
                                      then s3\<lparr>mapImageCloseButton :=
                                                Some (btn\<lparr>display := ''block''\<rparr>)\<rparr>
                                      else s3
                                  | None \<Rightarrow> s3)))
            | _ \<Rightarrow> s))"

subsection \<open>Video\<close>

text \<open>\<^verbatim>\<open>getOrCreateMapVideoElement()\<close>, lines 612-674.\<close>

definition getOrCreateMapVideoElement :: "media \<Rightarrow> bool \<times> media" where
  "getOrCreateMapVideoElement s =
     (if \<not> container s then (False, s)
      else if (case mapVideoElement s of Some video \<Rightarrow> inContainer video | None \<Rightarrow> False)
      then (True,
            (case mapVideoCloseButton s of
               Some btn \<Rightarrow>
                 if \<not> inContainer btn
                 then s\<lparr>mapVideoCloseButton := Some (appendToContainer btn)\<rparr> else s
             | None \<Rightarrow> s))
      else
        (let video = appendToContainer createElement;
             btn = (case mapVideoCloseButton s of Some b \<Rightarrow> b | None \<Rightarrow> createElement)
         in (True, s\<lparr>mapVideoElement := Some video,
                     mapVideoCloseButton := Some (appendToContainer btn)\<rparr>)))"

text \<open>
  \<^verbatim>\<open>stopCurrentMapVideo()\<close>, lines 705-725. \<^verbatim>\<open>load()\<close> on an element without a source
  resets it: paused, at time zero.
\<close>

definition stopCurrentMapVideo :: "media \<Rightarrow> media" where
  "stopCurrentMapVideo s =
     (let s1 = (case mapVideoElement s of
                  Some video \<Rightarrow>
                    if \<not> attached video then s\<lparr>mapVideoElement := None\<rparr>
                    else s\<lparr>mapVideoElement :=
                             Some (video\<lparr>paused := True, src := None, currentTime := 0,
                                         display := ''none''\<rparr>)\<rparr>
                | None \<Rightarrow> s)
      in case mapVideoCloseButton s1 of
           Some btn \<Rightarrow>
             if attached btn then s1\<lparr>mapVideoCloseButton := Some (btn\<lparr>display := ''none''\<rparr>)\<rparr>
             else s1
         | None \<Rightarrow> s1)"

text \<open>
  The options of \<^verbatim>\<open>playMapVideo\<close> as the function uses them: \<^verbatim>\<open>!!opts.muted\<close>,
  \<^verbatim>\<open>!!opts.loop\<close>, \<^verbatim>\<open>opts.autoplay !== false\<close>.
\<close>

record videoOpts =
  optMuted :: bool
  optLoop :: bool
  optAutoplay :: bool

text \<open>\<^verbatim>\<open>playMapVideo(movieName, opts)\<close>, lines 732-815.\<close>

definition playMapVideo :: "host \<Rightarrow> bool \<Rightarrow> jsval \<Rightarrow> videoOpts \<Rightarrow> media \<Rightarrow> media" where
  "playMapVideo h plays movieName opts s =
     (if \<not> truthy movieName then s
      else (case movieName of
              JStr name \<Rightarrow>
                (let relativePath =
                       mediaPath h ''movies/'' [''.mp4'', ''.webm'', ''.ogg'', ''.m4v'']
                         ''.mp4'' name
                 in case validateAssetPath (JStr relativePath) of
                      Inl e \<Rightarrow> s
                    | Inr ok \<Rightarrow>
                       (let videoSrc = extensionFolderPath @ ''/'' @ relativePath
                        in case getOrCreateMapVideoElement s of
                             (False, s1) \<Rightarrow> s1
                           | (True, s1) \<Rightarrow>
                              (let start = (\<lambda>video.
                                     (let cleared = (if src video \<noteq> None
                                                     then video\<lparr>paused := True, src := None,
                                                                currentTime := 0\<rparr>
                                                     else video)
                                      in cleared\<lparr>display := ''block'', src := Some videoSrc,
                                                 muted := optMuted opts, looping := optLoop opts,
                                                 autoplay := optAutoplay opts,
                                                 paused := (if optAutoplay opts then \<not> plays
                                                            else paused cleared)\<rparr>))
                               in s1\<lparr>mapVideoElement := map_option start (mapVideoElement s1),
                                      mapVideoCloseButton :=
                                        map_option (\<lambda>btn. btn\<lparr>display := ''block''\<rparr>)
                                          (mapVideoCloseButton s1),
                                      resizeListener := True\<rparr>)))
            | _ \<Rightarrow> s))"

text \<open>
  The overlay state of the specification read off the module's variables. A kind's
  resource is the node in its variable while that node is in the document, the test the
  stop functions make themselves. Audio is active while it plays; an image while it has a
  source or is displayed; a video while it plays, has a source or is displayed. A close
  control is shown when it is in the document and not hidden.
\<close>

definition shown :: "element option \<Rightarrow> bool" where
  "shown e = (case e of Some b \<Rightarrow> attached b \<and> display b \<noteq> ''none'' | None \<Rightarrow> False)"

definition audioIdle :: "media \<Rightarrow> bool" where
  "audioIdle s = (case mapAudioElement s of Some a \<Rightarrow> \<not> (attached a \<and> \<not> paused a) | None \<Rightarrow> True)"

definition imageIdle :: "media \<Rightarrow> bool" where
  "imageIdle s =
     ((case mapImageElement s of
         Some img \<Rightarrow> \<not> (attached img \<and> (src img \<noteq> None \<or> display img \<noteq> ''none''))
       | None \<Rightarrow> True)
      \<and> \<not> shown (mapImageCloseButton s))"

definition videoIdle :: "media \<Rightarrow> bool" where
  "videoIdle s =
     ((case mapVideoElement s of
         Some video \<Rightarrow>
           \<not> (attached video \<and> (\<not> paused video \<or> src video \<noteq> None \<or> display video \<noteq> ''none''))
       | None \<Rightarrow> True)
      \<and> \<not> shown (mapVideoCloseButton s))"

section \<open>Sample inputs\<close>

text \<open>
  A host whose four functions are left open: what evaluates under it does not consult
  them.
\<close>

definition unspecified_host :: host where
  "unspecified_host = \<lparr>StringToNumber = undefined, NumberToString = undefined,
                        StringToLowerCase = undefined, StringTrim = undefined\<rparr>"

definition cityDoc :: jsval where
  "cityDoc = JObj
     [(''backgroundImage'',
         JObj [(''file'', JStr ''images/city.png''), (''width'', JNum (Fin 800)),
               (''height'', JNum (Fin 600))]),
      (''shapes'',
         JArr [JObj [(''id'', JStr ''gate''), (''path'', JStr ''M0 0 L10 0 L10 10 Z''),
                     (''color'', JStr ''#F00''), (''script'', JStr ''/showmap gate'')]])]"

text \<open>The same document without \<^verbatim>\<open>backgroundImage.file\<close> and without the shape's colour.\<close>

definition docMissingFileAndColor :: jsval where
  "docMissingFileAndColor = JObj
     [(''backgroundImage'', JObj [(''width'', JNum (Fin 800)), (''height'', JNum (Fin 600))]),
      (''shapes'',
         JArr [JObj [(''id'', JStr ''gate''), (''path'', JStr ''M0 0 L10 0 L10 10 Z''),
                     (''script'', JStr ''/showmap gate'')]])]"

text \<open>A network that answers every request with the same JSON document.\<close>

definition serve :: "jsval \<Rightarrow> network" where
  "serve data = (\<lambda>url. Response True 200 ''OK'' (Json data))"

definition timesOut :: network where
  "timesOut = (\<lambda>url. Aborted)"

text \<open>
  Two known maps with the same file name, a single known map, and a single known map in
  a folder written with capitals.
\<close>

definition dungeonOnly :: module_state where
  "dungeonOnly = initial\<lparr>extState := (extState initial)
                   \<lparr>availableMaps := JArr [JStr ''Maps/Dungeon.json'']\<rparr>\<rparr>"

definition twoCities :: module_state where
  "twoCities = initial\<lparr>extState := (extState initial)
                 \<lparr>availableMaps := JArr [JStr ''a/city.json'', JStr ''city.json'']\<rparr>\<rparr>"

definition oneCity :: module_state where
  "oneCity = initial\<lparr>extState := (extState initial)
                 \<lparr>availableMaps := JArr [JStr ''maps/city.json'']\<rparr>\<rparr>"

text \<open>The map window is open; then a sound, an image and a video are started.\<close>

definition windowOpen :: media where
  "windowOpen = media0\<lparr>container := True\<rparr>"

definition rainPlaying :: media where
  "rainPlaying = playMapSound unspecified_host True (JStr ''rain'') windowOpen"

definition innShown :: media where
  "innShown = showMapImage unspecified_host (JStr ''inn.webp'') windowOpen"

definition introPlaying :: media where
  "introPlaying = playMapVideo unspecified_host True (JStr '' Intro.MP4 '')
     \<lparr>optMuted = True, optLoop = False, optAutoplay = True\<rparr> windowOpen"

section \<open>Properties\<close>

subsection \<open>String helpers\<close>

lemma includes_sublist: "includes_str s p = sublist p s"
  by (induction s) (simp_all add: sublist_Cons_right)

lemma startsWith_char: "startsWith s [c] = (\<exists>t. s = c # t)"
  by (cases s) (auto simp: startsWith_def)

lemma driveLetter_iff: "driveLetter s = (\<exists>c t. s = c # CHR '':'' # t \<and> isLetter c)"
  by (induction s rule: driveLetter.induct) auto

subsection \<open>Path validation\<close>

text \<open>
  C1. \<^verbatim>\<open>validateAssetPath(p)\<close> throws exactly when \<open>p\<close> is not a string, is the empty
  string, contains \<^verbatim>\<open>..\<close>, starts with a slash or a backslash, contains two backslashes in
  a row, or starts with a letter and a colon; on every other string it returns \<open>true\<close>.
\<close>

theorem validateAssetPath_throws_iff:
  "((\<exists>e. validateAssetPath p = Inl e) \<longleftrightarrow>
     ((\<nexists>s. p = JStr s) \<or> p = JStr [] \<or>
      (\<exists>s. p = JStr s \<and>
         (sublist ''..'' s \<or> (\<exists>t. s = CHR ''/'' # t) \<or> (\<exists>t. s = CHR 0x5C # t)
          \<or> sublist [CHR 0x5C, CHR 0x5C] s
          \<or> (\<exists>c t. s = c # CHR '':'' # t \<and> isLetter c)))))
   \<and> ((\<nexists>e. validateAssetPath p = Inl e) \<longleftrightarrow> validateAssetPath p = Inr True)"
  by (cases p; auto simp: includes_sublist startsWith_char driveLetter_iff)

theorem validateAssetPath_throws_iff_witness:
  "validateAssetPath (JStr ''maps/city.json'') = Inr True
   \<and> (\<exists>e. validateAssetPath (JStr ''maps/../secret.json'') = Inl e)"
proof
  have "\<nexists>e. validateAssetPath (JStr ''maps/city.json'') = Inl e"
    by (simp add: startsWith_def)
  then show "validateAssetPath (JStr ''maps/city.json'') = Inr True"
    by (rule iffD1 [OF conjunct2 [OF validateAssetPath_throws_iff]])
  have "sublist ''..'' ''maps/../secret.json''"
    by (simp add: sublist_Cons_right)
  then show "\<exists>e. validateAssetPath (JStr ''maps/../secret.json'') = Inl e"
    by (intro iffD2 [OF conjunct1 [OF validateAssetPath_throws_iff]]) blast
qed

subsection \<open>Document validation\<close>

lemma show_nat_0: "show_nat 0 = ''0''"
  by (simp add: show_nat.simps digits_def)

lemma get_JStr_obj: "get v k = JStr s \<Longrightarrow> \<exists>kvs. v = JObj kvs"
  by (cases v) simp_all

lemma get_JArr_obj: "get v k = JArr xs \<Longrightarrow> \<exists>kvs. v = JObj kvs"
  by (cases v) simp_all

lemma validateShape_missing_color:
  assumes "truthy (get shape ''id'')"
    and "get shape ''path'' = JStr p" and "p \<noteq> []"
    and "get shape ''script'' = JStr sc" and "sc \<noteq> []"
    and "get shape ''color'' = JUndefined"
  shows "validateShape h shape i errs = errs @
           [''Shape['' @ show_nat i @ '']: missing required fields (id, path, color, script)'',
            ''Shape['' @ show_nat i @ ''].color: invalid color '' @ [CHR 0x22] @ ''undefined''
              @ [CHR 0x22]]"
proof -
  obtain kvs where "shape = JObj kvs"
    using assms(2) get_JStr_obj by blast
  then have "truthy shape" "typeof shape = ''object''"
    by simp_all
  then show ?thesis
    using assms by (simp add: validateShape_def isValidColor_def Let_def)
qed

lemma cityDoc_valid: "valid (validateMapData unspecified_host cityDoc)"
  by (simp add: validateMapData_def cityDoc_def validateShape_def isValidColor_def isHex_def
      Let_def)

text \<open>
  C4, as the code has it. A document without \<^verbatim>\<open>backgroundImage.file\<close>, with valid
  dimensions and with one shape that lacks only its colour is invalid with exactly three
  errors, in this order: the one naming \<^verbatim>\<open>backgroundImage.file\<close>, the shape's
  missing-required-fields error by its index, and the one naming the shape's colour field
  by its index.
\<close>

theorem validateMapData_missing_file_and_color:
  assumes "get (get data ''backgroundImage'') ''file'' = JUndefined"
    and "isFinite (ToNumber h (get (get data ''backgroundImage'') ''width''))"
    and "\<not> le_zero (ToNumber h (get (get data ''backgroundImage'') ''width''))"
    and "isFinite (ToNumber h (get (get data ''backgroundImage'') ''height''))"
    and "\<not> le_zero (ToNumber h (get (get data ''backgroundImage'') ''height''))"
    and "get data ''shapes'' = JArr [shape]"
    and "truthy (get shape ''id'')"
    and "get shape ''path'' = JStr p" and "p \<noteq> []"
    and "get shape ''script'' = JStr sc" and "sc \<noteq> []"
    and "get shape ''color'' = JUndefined"
  shows "validateMapData h data =
           \<lparr>valid = False,
            errors = [''backgroundImage.file: required and must be a string'',
                      ''Shape[0]: missing required fields (id, path, color, script)'',
                      ''Shape[0].color: invalid color '' @ [CHR 0x22] @ ''undefined''
                        @ [CHR 0x22]]\<rparr>"
proof -
  obtain kvs where "data = JObj kvs"
    using assms(6) get_JArr_obj by blast
  then have obj: "truthy data" "typeof data = ''object''"
    by simp_all
  have sh: "validateShape h shape 0 errs = errs @
           [''Shape[0]: missing required fields (id, path, color, script)'',
            ''Shape[0].color: invalid color '' @ [CHR 0x22] @ ''undefined'' @ [CHR 0x22]]"
    for errs
    using validateShape_missing_color [OF assms(7-12), of h 0 errs] by (simp add: show_nat_0)
  show ?thesis
    using obj assms(1-6) by (simp add: validateMapData_def Let_def sh)
qed

theorem validateMapData_missing_file_and_color_witness:
  "validateMapData unspecified_host docMissingFileAndColor =
     \<lparr>valid = False,
      errors = [''backgroundImage.file: required and must be a string'',
                ''Shape[0]: missing required fields (id, path, color, script)'',
                ''Shape[0].color: invalid color '' @ [CHR 0x22] @ ''undefined''
                  @ [CHR 0x22]]\<rparr>"
  by (rule validateMapData_missing_file_and_color
        [where shape = "JObj [(''id'', JStr ''gate''), (''path'', JStr ''M0 0 L10 0 L10 10 Z''),
                              (''script'', JStr ''/showmap gate'')]"
           and p = "''M0 0 L10 0 L10 10 Z''" and sc = "''/showmap gate''"])
     (simp_all add: docMissingFileAndColor_def)

text \<open>The claim's count of two errors fails on that document: there are three.\<close>

theorem validateMapData_two_errors_counterexample:
  "length (errors (validateMapData unspecified_host docMissingFileAndColor)) = 3
   \<and> errors (validateMapData unspecified_host docMissingFileAndColor) ! 1
       = ''Shape[0]: missing required fields (id, path, color, script)''"
  by (simp add: validateMapData_def docMissingFileAndColor_def validateShape_def
      isValidColor_def show_nat_0 Let_def)

subsection \<open>The document cache\<close>

lemma Map_set_fresh: "k \<notin> fst ` set c \<Longrightarrow> Map_set c k v = c @ [(k, v)]"
  by (induction c) auto

lemma Map_delete_first: "distinct (map fst (p # ps)) \<Longrightarrow> Map_delete (p # ps) (fst p) = ps"
  by (auto simp: Map_delete_def filter_id_conv rev_image_eqI)

lemma set_Map_set: "set (Map_set c k v) \<subseteq> insert (k, v) (set c)"
  by (induction c) auto

lemma set_Map_delete: "set (Map_delete c k) \<subseteq> set c"
  by (auto simp: Map_delete_def)

lemma set_cacheInsert: "set (cacheInsert m c k v) \<subseteq> insert (k, v) (set c)"
  using set_Map_set set_Map_delete
  by (fastforce simp: cacheInsert_def split: list.splits if_splits)

lemma cacheInsert_fifo:
  assumes "distinct (map fst c)" and "k \<notin> fst ` set c"
  shows "cacheInsert m c k v = (if m \<le> length c then tl c else c) @ [(k, v)]"
proof (cases c)
  case Nil
  then show ?thesis by (simp add: cacheInsert_def)
next
  case (Cons p ps)
  obtain k0 v0 where p: "p = (k0, v0)" by (cases p)
  have "Map_delete ((k0, v0) # ps) k0 = ps"
    using assms(1) Cons p Map_delete_first [of p ps] by simp
  moreover have "k \<notin> fst ` set ps" using assms(2) Cons by auto
  ultimately show ?thesis
    using assms(2) Cons p by (simp add: cacheInsert_def Map_set_fresh)
qed

lemma loadMapData_cases:
  "(\<exists>d. map_of (mapCache s) n = Some d \<and> loadMapData st h net n s = (Inr d, s))
   \<or> (\<exists>e. map_of (mapCache s) n = None
           \<and> loadMapData st h net n s = (Inl e, s\<lparr>extState := (extState s)\<lparr>lastError := Some e\<rparr>\<rparr>))
   \<or> (\<exists>d. map_of (mapCache s) n = None \<and> valid (validateMapData h d)
           \<and> loadMapData st h net n s
               = (Inr d, s\<lparr>mapCache := cacheInsert (maxMapCache st) (mapCache s) n d\<rparr>))"
  by (auto simp: loadMapData_def Let_def split: option.splits sum.splits)

lemma loadMapData_fetchable:
  assumes "fetchable h net n" and "map_of (mapCache s) n = None"
  shows "\<exists>d. valid (validateMapData h d) \<and> loadMapData st h net n s
               = (Inr d, s\<lparr>mapCache := cacheInsert (maxMapCache st) (mapCache s) n d\<rparr>)"
  using assms
  by (auto simp: loadMapData_def fetchable_def fetchJsonWithTimeout_def Let_def
           split: fetch_outcome.splits body.splits)

lemma loadMapData_failure_keeps_cache:
  "fst (loadMapData st h net n s) = Inl e \<Longrightarrow> mapCache (snd (loadMapData st h net n s)) = mapCache s"
  using loadMapData_cases [of s n st h net] by auto

lemma loadMapData_preserves_valid:
  assumes "\<forall>p \<in> set (mapCache s). valid (validateMapData h (snd p))"
  shows "\<forall>p \<in> set (mapCache (snd (loadMapData st h net n s))). valid (validateMapData h (snd p))"
  using loadMapData_cases [of s n st h net] assms set_cacheInsert [of "maxMapCache st" "mapCache s" n]
  by (elim disjE exE conjE) (simp_all, fastforce)

lemma run_preserves_valid:
  "\<forall>p \<in> set (mapCache s). valid (validateMapData h (snd p)) \<Longrightarrow>
   \<forall>p \<in> set (mapCache (run st h reqs s)). valid (validateMapData h (snd p))"
proof (induction reqs arbitrary: s)
  case Nil
  then show ?case by simp
next
  case (Cons r reqs)
  show ?case
  proof (cases r)
    case (Load n net)
    then show ?thesis
      using Cons.IH [OF loadMapData_preserves_valid [OF Cons.prems]] by simp
  next
    case ClearCache
    then show ?thesis using Cons.IH [of "s\<lparr>mapCache := []\<rparr>"] by simp
  qed
qed

lemma drop_fifo_full:
  assumes "m = Suc (length kt)"
  shows "drop (length (kt @ [n]) + r - m) ((kt @ [n]) @ rs)
         = drop (length (k0 # kt) + Suc r - m) ((k0 # kt) @ n # rs)"
  by (simp add: assms)

lemma run_loads_fifo:
  assumes "0 < maxMapCache st"
    and "distinct (map fst (mapCache s) @ map fst reqs)"
    and "length (mapCache s) \<le> maxMapCache st"
    and "\<forall>(n, net) \<in> set reqs. fetchable h net n"
  shows "map fst (mapCache (run st h (map (\<lambda>(n, net). Load n net) reqs) s))
         = drop (length (mapCache s) + length reqs - maxMapCache st)
                (map fst (mapCache s) @ map fst reqs)"
  using assms(2-4)
proof (induction reqs arbitrary: s)
  case Nil
  then show ?case by simp
next
  case (Cons r reqs)
  obtain n net where r: "r = (n, net)" by (cases r)
  let ?c = "mapCache s"
  have fresh: "n \<notin> fst ` set ?c" and dc: "distinct (map fst ?c)"
    using Cons.prems(1) r by auto
  then have miss: "map_of ?c n = None" by (simp add: map_of_eq_None_iff)
  have "fetchable h net n" using Cons.prems(3) r by simp
  then obtain d where
    ld: "loadMapData st h net n s = (Inr d, s\<lparr>mapCache := cacheInsert (maxMapCache st) ?c n d\<rparr>)"
    using loadMapData_fetchable miss by blast
  let ?c' = "cacheInsert (maxMapCache st) ?c n d"
  let ?s' = "s\<lparr>mapCache := ?c'\<rparr>"
  have c': "?c' = (if maxMapCache st \<le> length ?c then tl ?c else ?c) @ [(n, d)]"
    using cacheInsert_fifo [OF dc fresh] .
  have nonempty: "maxMapCache st \<le> length ?c \<Longrightarrow> ?c \<noteq> []"
    using assms(1) by auto
  have keys': "map fst ?c' = (if maxMapCache st \<le> length ?c then tl (map fst ?c) else map fst ?c) @ [n]"
    by (simp add: c' map_tl)
  have len': "length (mapCache ?s') \<le> maxMapCache st"
    using Cons.prems(2) nonempty by (auto simp: c')
  have "set (tl (map fst ?c)) \<subseteq> set (map fst ?c)" "distinct (tl (map fst ?c))"
    using dc by (cases "mapCache s"; simp add: subset_insertI)+
  then have "distinct (map fst ?c' @ map fst reqs)"
    unfolding keys' using Cons.prems(1) r by (auto split: if_splits)
  then have dist': "distinct (map fst (mapCache ?s') @ map fst reqs)" by simp
  have all': "\<forall>(n, net) \<in> set reqs. fetchable h net n" using Cons.prems(3) by simp
  have "map fst (mapCache (run st h (map (\<lambda>(n, net). Load n net) (r # reqs)) s))
        = map fst (mapCache (run st h (map (\<lambda>(n, net). Load n net) reqs) ?s'))"
    by (simp add: r ld)
  also have "\<dots> = drop (length ?c' + length reqs - maxMapCache st) (map fst ?c' @ map fst reqs)"
    using Cons.IH [OF dist' len' all'] by simp
  also have "\<dots> = drop (length ?c + length (r # reqs) - maxMapCache st) (map fst ?c @ map fst (r # reqs))"
  proof (cases "maxMapCache st \<le> length ?c")
    case True
    then have eq: "length ?c = maxMapCache st" using Cons.prems(2) by simp
    obtain p ps where cp: "?c = p # ps" using nonempty [OF True] by (cases ?c) auto
    have m: "maxMapCache st = Suc (length (map fst ps))" using eq cp by simp
    have k: "map fst ?c' = map fst ps @ [n]" using True keys' cp by simp
    have l: "length ?c' = length (map fst ps @ [n])" by (metis k length_map)
    show ?thesis
      unfolding k l using drop_fifo_full [OF m, of n "length reqs" "map fst reqs" "fst p"]
      by (simp add: cp r)
  next
    case False
    then show ?thesis by (simp add: keys' c' r)
  qed
  finally show ?case .
qed



lemma loadMapData_fails_iff:
  assumes "map_of (mapCache s) n = None"
  shows "(\<exists>e. fst (loadMapData st h net n s) = Inl e) \<longleftrightarrow> \<not> fetchable h net n"
proof (cases "fetchable h net n")
  case True
  then show ?thesis
    using loadMapData_fetchable [OF True assms, of st] by auto
next
  case False
  have ok: "validateAssetPath (JStr n) = Inr b \<Longrightarrow> b" for b
    by (auto split: if_splits)
  show ?thesis
  proof (cases "validateAssetPath (JStr n)")
    case (Inl e)
    then show ?thesis
      using assms False by (simp add: loadMapData_def fetchable_def)
  next
    case (Inr b)
    then have "validateAssetPath (JStr n) = Inr True"
      using ok by (cases b) auto
    then show ?thesis
      using assms False
      by (auto simp del: validateAssetPath.simps
          simp: loadMapData_def fetchable_def fetchJsonWithTimeout_def Let_def
          split: fetch_outcome.splits body.splits)
  qed
qed

text \<open>
  C2. A load that fails (the path is rejected, the request times out or is answered with
  an HTTP error, the body does not parse, the document does not validate) leaves the cache
  as it was; on a cache miss the load fails exactly when the request is not one that
  fetches a valid document, so an invalid document is never inserted; loads and clears
  keep a cache of valid documents so; and whatever the module has done to the cache since
  it started, every value in it passes \<^verbatim>\<open>validateMapData\<close>.
\<close>

theorem cache_holds_validated_documents:
  "(\<forall>e. fst (loadMapData st h net n s) = Inl e \<longrightarrow>
        mapCache (snd (loadMapData st h net n s)) = mapCache s)
   \<and> (map_of (mapCache s) n = None \<longrightarrow>
        ((\<exists>e. fst (loadMapData st h net n s) = Inl e) \<longleftrightarrow> \<not> fetchable h net n))
   \<and> (\<forall>status statusText data.
        map_of (mapCache s) n = None
        \<and> net (extensionFolderPath @ ''/'' @ n) = Response True status statusText (Json data)
        \<and> \<not> valid (validateMapData h data) \<longrightarrow>
          (\<exists>e. fst (loadMapData st h net n s) = Inl e)
          \<and> mapCache (snd (loadMapData st h net n s)) = mapCache s)
   \<and> ((\<forall>p \<in> set (mapCache s). valid (validateMapData h (snd p))) \<longrightarrow>
        (\<forall>p \<in> set (mapCache (run st h reqs s)). valid (validateMapData h (snd p))))
   \<and> (\<forall>p \<in> set (mapCache (run st h reqs initial)). valid (validateMapData h (snd p)))"
proof (intro conjI allI impI)
  fix e
  assume "fst (loadMapData st h net n s) = Inl e"
  then show "mapCache (snd (loadMapData st h net n s)) = mapCache s"
    by (rule loadMapData_failure_keeps_cache)
next
  assume "map_of (mapCache s) n = None"
  then show "(\<exists>e. fst (loadMapData st h net n s) = Inl e) \<longleftrightarrow> \<not> fetchable h net n"
    by (rule loadMapData_fails_iff)
next
  fix status statusText data
  assume a: "map_of (mapCache s) n = None
        \<and> net (extensionFolderPath @ ''/'' @ n) = Response True status statusText (Json data)
        \<and> \<not> valid (validateMapData h data)"
  then have "\<not> fetchable h net n"
    by (simp add: fetchable_def)
  then show fails: "\<exists>e. fst (loadMapData st h net n s) = Inl e"
    using a loadMapData_fails_iff by blast
  then show "mapCache (snd (loadMapData st h net n s)) = mapCache s"
    using loadMapData_failure_keeps_cache by blast
next
  assume "\<forall>p \<in> set (mapCache s). valid (validateMapData h (snd p))"
  then show "\<forall>p \<in> set (mapCache (run st h reqs s)). valid (validateMapData h (snd p))"
    by (rule run_preserves_valid)
next
  have "\<forall>p \<in> set (mapCache initial). valid (validateMapData h (snd p))"
    by (simp add: initial_def)
  then show "\<forall>p \<in> set (mapCache (run st h reqs initial)). valid (validateMapData h (snd p))"
    by (rule run_preserves_valid)
qed

lemma path_ok: "validateAssetPath (JStr (c # ''.json'')) = Inr True"
  if "c \<in> set ''abcdefgh''"
  using that by (auto simp: startsWith_def)

lemma docMissingFileAndColor_invalid:
  "\<not> valid (validateMapData unspecified_host docMissingFileAndColor)"
  by (simp add: validateMapData_def docMissingFileAndColor_def validateShape_def
      isValidColor_def show_nat_0 Let_def)

theorem cache_holds_validated_documents_witness:
  "mapCache (snd (loadMapData mapSettings0 unspecified_host (serve docMissingFileAndColor)
                    ''b.json'' initial)) = []
   \<and> list_all (\<lambda>p. valid (validateMapData unspecified_host (snd p)))
        (mapCache (run mapSettings0 unspecified_host
                     [Load ''a.json'' (serve cityDoc),
                      Load ''b.json'' (serve docMissingFileAndColor),
                      Load ''c.json'' timesOut] initial))"
proof
  let ?load = "loadMapData mapSettings0 unspecified_host (serve docMissingFileAndColor)
                 ''b.json'' initial"
  note inst = cache_holds_validated_documents
    [of mapSettings0 unspecified_host "serve docMissingFileAndColor" "''b.json''" initial
        "[Load ''a.json'' (serve cityDoc), Load ''b.json'' (serve docMissingFileAndColor),
          Load ''c.json'' timesOut]"]
  have miss: "map_of (mapCache initial) ''b.json'' = None"
    by (simp add: initial_def)
  have "\<not> fetchable unspecified_host (serve docMissingFileAndColor) ''b.json''"
    by (simp add: fetchable_def serve_def docMissingFileAndColor_invalid)
  then have "\<exists>e. fst ?load = Inl e"
    using inst miss by blast
  then have "mapCache (snd ?load) = mapCache initial"
    using inst by blast
  then show "mapCache (snd ?load) = []"
    by (simp add: initial_def)
  show "list_all (\<lambda>p. valid (validateMapData unspecified_host (snd p)))
        (mapCache (run mapSettings0 unspecified_host
                     [Load ''a.json'' (serve cityDoc),
                      Load ''b.json'' (serve docMissingFileAndColor),
                      Load ''c.json'' timesOut] initial))"
    using inst unfolding list_all_iff by blast
qed

text \<open>
  C3. With a positive capacity and a cache within it (the empty one, say), loading
  \<open>maxMapCache + 1\<close> documents under distinct names that are not cached leaves exactly
  \<open>maxMapCache\<close> entries: the first name is gone and all later names are there, in the
  order of their insertion. And each successful load into a full cache drops exactly the
  oldest entry and appends the new one.
\<close>

theorem cache_eviction_fifo:
  assumes "0 < maxMapCache st" and "length (mapCache s) \<le> maxMapCache st"
    and "distinct (map fst (mapCache s) @ map fst reqs)"
    and "length reqs = maxMapCache st + 1"
    and "\<forall>(n, net) \<in> set reqs. fetchable h net n"
  shows "(let c = mapCache (run st h (map (\<lambda>(n, net). Load n net) reqs) s) in
            length c = maxMapCache st
            \<and> map fst c = tl (map fst reqs)
            \<and> fst (hd reqs) \<notin> fst ` set c
            \<and> set (tl (map fst reqs)) \<subseteq> fst ` set c)
         \<and> (\<forall>s' n net.
               maxMapCache st \<le> length (mapCache s') \<and> distinct (map fst (mapCache s'))
               \<and> n \<notin> fst ` set (mapCache s') \<and> fetchable h net n \<longrightarrow>
                 (\<exists>d. fst (loadMapData st h net n s') = Inr d
                      \<and> mapCache (snd (loadMapData st h net n s'))
                          = tl (mapCache s') @ [(n, d)]))"
proof (intro conjI allI impI)
  let ?c = "mapCache (run st h (map (\<lambda>(n, net). Load n net) reqs) s)"
  have "length (mapCache s) + length reqs - maxMapCache st = Suc (length (mapCache s))"
    using assms(4) by simp
  then have "map fst ?c = drop (Suc (length (map fst (mapCache s)))) (map fst (mapCache s) @ map fst reqs)"
    using run_loads_fifo [OF assms(1,3,2,5)] by simp
  then have keys: "map fst ?c = tl (map fst reqs)"
    by (simp add: drop_Suc drop_tl)
  obtain r rest where reqs: "reqs = r # rest"
    using assms(4) by (cases reqs) auto
  have len: "length ?c = maxMapCache st"
    using keys assms(4) by (metis add_diff_cancel_right' length_map length_tl)
  have "distinct (map fst reqs)"
    using assms(3) by simp
  then have first: "fst (hd reqs) \<notin> set (map fst ?c)"
    by (subst keys) (simp add: reqs)
  show "let c = ?c in length c = maxMapCache st \<and> map fst c = tl (map fst reqs)
          \<and> fst (hd reqs) \<notin> fst ` set c \<and> set (tl (map fst reqs)) \<subseteq> fst ` set c"
    using keys len first by (simp add: Let_def) (metis list.set_map order_refl)
next
  fix s' :: module_state and n :: string and net :: network
  assume a: "maxMapCache st \<le> length (mapCache s') \<and> distinct (map fst (mapCache s'))
               \<and> n \<notin> fst ` set (mapCache s') \<and> fetchable h net n"
  then have miss: "map_of (mapCache s') n = None"
    by (simp add: map_of_eq_None_iff)
  obtain d where d: "loadMapData st h net n s'
      = (Inr d, s'\<lparr>mapCache := cacheInsert (maxMapCache st) (mapCache s') n d\<rparr>)"
    using loadMapData_fetchable [OF _ miss] a by blast
  have "cacheInsert (maxMapCache st) (mapCache s') n d = tl (mapCache s') @ [(n, d)]"
    using cacheInsert_fifo [of "mapCache s'" n "maxMapCache st" d] a by simp
  then show "\<exists>d. fst (loadMapData st h net n s') = Inr d
                \<and> mapCache (snd (loadMapData st h net n s')) = tl (mapCache s') @ [(n, d)]"
    using d by simp
qed

theorem cache_eviction_fifo_witness:
  "map fst (mapCache (run (mapSettings0\<lparr>maxMapCache := 2\<rparr>) unspecified_host
                        [Load ''a.json'' (serve cityDoc), Load ''b.json'' (serve cityDoc),
                         Load ''c.json'' (serve cityDoc)] initial))
   = [''b.json'', ''c.json'']"
proof -
  let ?reqs = "[(''a.json'', serve cityDoc), (''b.json'', serve cityDoc),
                (''c.json'', serve cityDoc)]"
  have f: "fetchable unspecified_host (serve cityDoc) (c # ''.json'')"
    if "c \<in> set ''abcdefgh''" for c
    using path_ok [OF that] by (simp add: fetchable_def serve_def cityDoc_valid)
  have 1: "0 < maxMapCache (mapSettings0\<lparr>maxMapCache := 2\<rparr>)"
    by simp
  have 2: "length (mapCache initial) \<le> maxMapCache (mapSettings0\<lparr>maxMapCache := 2\<rparr>)"
    by (simp add: initial_def)
  have 3: "distinct (map fst (mapCache initial) @ map fst ?reqs)"
    by (simp add: initial_def)
  have 4: "length ?reqs = maxMapCache (mapSettings0\<lparr>maxMapCache := 2\<rparr>) + 1"
    by simp
  have 5: "\<forall>(n, net) \<in> set ?reqs. fetchable unspecified_host net n"
    using f by simp
  show ?thesis
    using cache_eviction_fifo [OF 1 2 3 4 5] by (simp add: Let_def)
qed


subsection \<open>Discovery of the listing\<close>

text \<open>
  C6. \<^verbatim>\<open>discoverAvailableMaps\<close> returns normally whatever the listing request does, and
  when the request times out, is rejected, is answered with an HTTP error, carries a body
  that is not JSON, or carries the empty list (bare, or as the \<^verbatim>\<open>maps\<close> of an object), it
  returns the one-element list of the default map (and stores it).
\<close>

theorem discoverAvailableMaps_never_fails:
  "(\<exists>maps. fst (discoverAvailableMaps st h net s) = Inr maps)
   \<and> (net (extensionFolderPath @ ''/index.json'') = Aborted
       \<or> (\<exists>e. net (extensionFolderPath @ ''/index.json'') = Rejected e)
       \<or> (\<exists>status statusText b.
             net (extensionFolderPath @ ''/index.json'') = Response False status statusText b)
       \<or> (\<exists>status statusText msg.
             net (extensionFolderPath @ ''/index.json'')
               = Response True status statusText (Malformed msg))
       \<or> (\<exists>status statusText.
             net (extensionFolderPath @ ''/index.json'')
               = Response True status statusText (Json (JArr [])))
       \<or> (\<exists>status statusText kvs.
             net (extensionFolderPath @ ''/index.json'')
               = Response True status statusText (Json (JObj kvs))
             \<and> get (JObj kvs) ''maps'' = JArr [])
       \<longrightarrow> fst (discoverAvailableMaps st h net s) = Inr (JArr [JStr (defaultMap st)])
           \<and> availableMaps (extState (snd (discoverAvailableMaps st h net s)))
               = JArr [JStr (defaultMap st)])"
proof
  show "\<exists>maps. fst (discoverAvailableMaps st h net s) = Inr maps"
    by (simp add: discoverAvailableMaps_def Let_def split: sum.splits)
next
  show "net (extensionFolderPath @ ''/index.json'') = Aborted
       \<or> (\<exists>e. net (extensionFolderPath @ ''/index.json'') = Rejected e)
       \<or> (\<exists>status statusText b.
             net (extensionFolderPath @ ''/index.json'') = Response False status statusText b)
       \<or> (\<exists>status statusText msg.
             net (extensionFolderPath @ ''/index.json'')
               = Response True status statusText (Malformed msg))
       \<or> (\<exists>status statusText.
             net (extensionFolderPath @ ''/index.json'')
               = Response True status statusText (Json (JArr [])))
       \<or> (\<exists>status statusText kvs.
             net (extensionFolderPath @ ''/index.json'')
               = Response True status statusText (Json (JObj kvs))
             \<and> get (JObj kvs) ''maps'' = JArr [])
       \<longrightarrow> fst (discoverAvailableMaps st h net s) = Inr (JArr [JStr (defaultMap st)])
           \<and> availableMaps (extState (snd (discoverAvailableMaps st h net s)))
               = JArr [JStr (defaultMap st)]"
    by (auto simp: discoverAvailableMaps_def tryLoadMapsFromIndex_def indexMaps_def Let_def)
qed

theorem discoverAvailableMaps_never_fails_witness:
  "fst (discoverAvailableMaps mapSettings0 unspecified_host timesOut initial)
     = Inr (JArr [JStr ''SillyTavern.json''])"
proof -
  have "timesOut (extensionFolderPath @ ''/index.json'') = Aborted"
    by (simp add: timesOut_def)
  then show ?thesis
    using discoverAvailableMaps_never_fails [of mapSettings0 unspecified_host timesOut initial]
    by (simp add: mapSettings0_def DEFAULT_MAP_def)
qed

subsection \<open>Map names\<close>

lemma ascii_append: "ascii (a @ b) \<longleftrightarrow> ascii a \<and> ascii b"
  by (simp add: ascii_def)

lemma toLowerCase_ascii: "ascii s \<Longrightarrow> toLowerCase h s = map lowerChar s"
  by (simp add: toLowerCase_def)

lemma endsWith_append: "endsWith (a @ b) b"
  by (simp add: endsWith_def)

lemma filename_split:
  "mapPath = filename mapPath \<or> (\<exists>pre. mapPath = pre @ CHR ''/'' # filename mapPath)"
proof -
  let ?P = "\<lambda>c. c \<noteq> CHR ''/''"
  have split: "rev mapPath = takeWhile ?P (rev mapPath) @ dropWhile ?P (rev mapPath)"
    by simp
  show ?thesis
  proof (cases "dropWhile ?P (rev mapPath)")
    case Nil
    then have "rev mapPath = takeWhile ?P (rev mapPath)"
      by (metis split append_Nil2)
    then have "mapPath = filename mapPath"
      unfolding filename_def by (metis rev_rev_ident)
    then show ?thesis ..
  next
    case (Cons c cs)
    then have "c = CHR ''/''"
      using hd_dropWhile [of ?P "rev mapPath"] by auto
    then have "rev mapPath = takeWhile ?P (rev mapPath) @ CHR ''/'' # cs"
      using split Cons by simp
    then have "mapPath = rev cs @ CHR ''/'' # filename mapPath"
      unfolding filename_def
      by (metis rev.simps(2) rev_append rev_rev_ident append.assoc append_Cons append_Nil)
    then show ?thesis by blast
  qed
qed

text \<open>
  Lowering an ASCII path lowers its file name in place: this is where the entries have
  to be ASCII (the engine lowers a capital sigma by what follows it).
\<close>

lemma toLowerCase_filename:
  assumes "ascii mapPath"
  shows "toLowerCase h mapPath = toLowerCase h (filename mapPath)
      \<or> endsWith (toLowerCase h mapPath) (''/'' @ toLowerCase h (filename mapPath))"
proof -
  from filename_split [of mapPath] show ?thesis
  proof
    assume "mapPath = filename mapPath"
    then show ?thesis by simp
  next
    assume "\<exists>pre. mapPath = pre @ CHR ''/'' # filename mapPath"
    then obtain pre fn where p: "mapPath = pre @ CHR ''/'' # fn" and fn: "fn = filename mapPath"
      by blast
    have "ascii fn"
      using assms unfolding p by (simp add: ascii_def)
    then have lfn: "toLowerCase h fn = map lowerChar fn"
      by (rule toLowerCase_ascii)
    have "toLowerCase h mapPath = map lowerChar (pre @ CHR ''/'' # fn)"
      using toLowerCase_ascii [OF assms] unfolding p .
    also have "\<dots> = map lowerChar pre @ (''/'' @ map lowerChar fn)"
      by (simp add: lowerChar_def upperCase_def lowerCase_def)
    finally have "toLowerCase h mapPath = map lowerChar pre @ (''/'' @ toLowerCase h fn)"
      using lfn by simp
    then have "endsWith (toLowerCase h mapPath) (''/'' @ toLowerCase h fn)"
      using endsWith_append by metis
    then show ?thesis
      unfolding fn ..
  qed
qed

lemma namesEntry_nameMatches:
  assumes "ascii mapPath" and "namesEntry h t mapPath"
  shows "nameMatches h (toLowerCase h t) mapPath"
proof -
  note suffix = toLowerCase_filename [OF assms(1), of h]
  from assms(2) consider "toLowerCase h mapPath = toLowerCase h t"
    | "toLowerCase h (filename mapPath) = toLowerCase h t"
    | "toLowerCase h (filename mapPath) = toLowerCase h t @ ''.json''"
    unfolding namesEntry_def by blast
  then show ?thesis
  proof cases
    case 1
    then show ?thesis by (simp add: nameMatches_def)
  next
    case 2
    then show ?thesis using suffix by (auto simp: nameMatches_def)
  next
    case 3
    then show ?thesis using suffix by (auto simp: nameMatches_def)
  qed
qed

lemma findEntry_strings:
  "findEntry h search (map JStr known)
     = Inr (case List.find (nameMatches h search) known of
              Some e \<Rightarrow> JStr e | None \<Rightarrow> JUndefined)"
  by (induction known) simp_all

lemma findMapByName_strings:
  "findMapByName h (JArr (map JStr known)) t =
     Inr (case List.find (nameMatches h (toLowerCase h t)) known of
            Some e \<Rightarrow> if e = [] then JNull else JStr e
          | None \<Rightarrow> JNull)"
proof (cases "known = []")
  case True
  then show ?thesis by (simp add: findMapByName_def)
next
  case False
  then have "lengthOf (JArr (map JStr known)) \<noteq> Inr (JNum (Fin 0))"
    by simp
  then show ?thesis
    by (simp add: findMapByName_def findEntry_strings split: option.splits)
qed

lemma resolveMapPath_strings:
  assumes "availableMaps (extState s) = JArr (map JStr known)"
    and "input \<noteq> []" and "[] \<notin> set known"
  shows "resolveMapPath h s input =
           Inr (JStr (case List.find (nameMatches h (toLowerCase h (trim h input))) known of
                        Some e \<Rightarrow> e
                      | None \<Rightarrow> if endsWith (toLowerCase h (trim h input)) ''.json''
                                then trim h input else trim h input @ ''.json''))"
proof (cases "List.find (nameMatches h (toLowerCase h (trim h input))) known")
  case None
  then show ?thesis
    using assms(2) by (simp add: resolveMapPath_def assms(1) findMapByName_strings Let_def)
next
  case (Some e)
  then have "e \<in> set known"
    by (auto simp: find_Some_iff)
  then have "e \<noteq> []"
    using assms(3) by auto
  then show ?thesis
    using assms(2) Some
    by (simp add: resolveMapPath_def assms(1) findMapByName_strings Let_def)
qed

text \<open>
  C7, as the code has it. For a non-empty term and a list of known maps, none the empty
  string, \<^verbatim>\<open>resolveMapPath\<close> returns verbatim the first entry of the list that the search
  matches: an entry matches when its lower-cased form equals the lower-cased trimmed
  term, or that term followed by \<^verbatim>\<open>.json\<close>, or ends with a slash followed by one of the
  two. When the search matches no entry, the result is the trimmed term, with \<^verbatim>\<open>.json\<close>
  appended unless the lower-cased term already ends in it. A term that names an ASCII
  entry, in that it equals the entry, or the entry's file name with or without
  \<^verbatim>\<open>.json\<close>, letter case ignored, is matched by the search on that entry; so the result
  is then the first matching entry, and it is the entry named when no other entry
  matches.
\<close>

theorem resolveMapPath_first_match:
  assumes "availableMaps (extState s) = JArr (map JStr known)"
    and "input \<noteq> []" and "[] \<notin> set known"
  shows "(\<forall>e'. List.find (nameMatches h (toLowerCase h (trim h input))) known = Some e' \<longrightarrow>
            resolveMapPath h s input = Inr (JStr e'))
       \<and> ((\<forall>e \<in> set known. \<not> nameMatches h (toLowerCase h (trim h input)) e) \<longrightarrow>
             resolveMapPath h s input =
               Inr (JStr (if endsWith (toLowerCase h (trim h input)) ''.json''
                          then trim h input else trim h input @ ''.json'')))
       \<and> (\<forall>e \<in> set known. ascii e \<and> namesEntry h (trim h input) e \<longrightarrow>
            nameMatches h (toLowerCase h (trim h input)) e
            \<and> (\<exists>e'. List.find (nameMatches h (toLowerCase h (trim h input))) known = Some e'
                  \<and> resolveMapPath h s input = Inr (JStr e')))
       \<and> (\<forall>e \<in> set known.
             ascii e \<and> namesEntry h (trim h input) e
             \<and> (\<forall>e' \<in> set known. nameMatches h (toLowerCase h (trim h input)) e' \<longrightarrow> e' = e) \<longrightarrow>
               resolveMapPath h s input = Inr (JStr e))"
proof (intro conjI ballI allI impI)
  let ?m = "nameMatches h (toLowerCase h (trim h input))"
  note r = resolveMapPath_strings [OF assms, of h]
  {
    fix e'
    assume "List.find ?m known = Some e'"
    then show "resolveMapPath h s input = Inr (JStr e')"
      using r by simp
  }
  {
    assume "\<forall>e \<in> set known. \<not> ?m e"
    then have "List.find ?m known = None"
      by (simp add: find_None_iff)
    then show "resolveMapPath h s input =
               Inr (JStr (if endsWith (toLowerCase h (trim h input)) ''.json''
                          then trim h input else trim h input @ ''.json''))"
      using r by simp
  }
  {
    fix e
    assume e: "e \<in> set known" and n: "ascii e \<and> namesEntry h (trim h input) e"
    then show m: "?m e"
      using namesEntry_nameMatches by blast
    then obtain e' where f: "List.find ?m known = Some e'"
      using e by (cases "List.find ?m known") (auto simp: find_None_iff)
    then show "\<exists>e'. List.find ?m known = Some e' \<and> resolveMapPath h s input = Inr (JStr e')"
      using r by simp
  }
  {
    fix e
    assume a: "ascii e \<and> namesEntry h (trim h input) e
                 \<and> (\<forall>e' \<in> set known. ?m e' \<longrightarrow> e' = e)"
      and e: "e \<in> set known"
    then have "?m e"
      using namesEntry_nameMatches by blast
    then obtain e' where f: "List.find ?m known = Some e'"
      using e by (cases "List.find ?m known") (auto simp: find_None_iff)
    then have "e' \<in> set known" "?m e'"
      by (auto simp: find_Some_iff)
    then have "e' = e"
      using a by blast
    then show "resolveMapPath h s input = Inr (JStr e)"
      using r f by simp
  }
qed

lemmas string_eval = trim_def isSpace_def toLowerCase_def ascii_def lowerChar_def upperCase_def
  lowerCase_def endsWith_def nameMatches_def namesEntry_def filename_def

theorem resolveMapPath_first_match_witness:
  "resolveMapPath unspecified_host oneCity ''City'' = Inr (JStr ''maps/city.json'')
   \<and> resolveMapPath unspecified_host oneCity ''nonexistent'' = Inr (JStr ''nonexistent.json'')"
proof
  have maps: "availableMaps (extState oneCity) = JArr (map JStr [''maps/city.json''])"
    by (simp add: oneCity_def)
  have t1: "''City'' \<noteq> []" and t2: "''nonexistent'' \<noteq> []"
    and k: "[] \<notin> set [''maps/city.json'']"
    by simp_all
  have "ascii ''maps/city.json''
      \<and> namesEntry unspecified_host (trim unspecified_host ''City'') ''maps/city.json''"
    by (simp add: string_eval)
  then show "resolveMapPath unspecified_host oneCity ''City'' = Inr (JStr ''maps/city.json'')"
    using resolveMapPath_first_match [OF maps t1 k, of unspecified_host] by simp
  have "\<not> nameMatches unspecified_host
            (toLowerCase unspecified_host (trim unspecified_host ''nonexistent''))
            ''maps/city.json''"
    by (simp add: string_eval)
  then show "resolveMapPath unspecified_host oneCity ''nonexistent''
               = Inr (JStr ''nonexistent.json'')"
    using resolveMapPath_first_match [OF maps t2 k, of unspecified_host]
    by (simp add: string_eval)
qed

text \<open>
  The claim fails twice. Its \<open>that entry\<close> fails when an earlier entry matches too: the
  term equals the second of two known maps and the first is returned. Its fallback
  fails for a term that names no entry, neither the entry itself nor its file name, and
  that the search matches all the same, as the whole path without its \<^verbatim>\<open>.json\<close>: the
  entry is returned, not the term with \<^verbatim>\<open>.json\<close>.
\<close>

theorem resolveMapPath_that_entry_counterexample:
  "namesEntry unspecified_host ''city.json'' ''city.json''
   \<and> resolveMapPath unspecified_host twoCities ''city.json'' = Inr (JStr ''a/city.json'')
   \<and> \<not> namesEntry unspecified_host ''maps/dungeon'' ''Maps/Dungeon.json''
   \<and> resolveMapPath unspecified_host dungeonOnly ''maps/dungeon''
       = Inr (JStr ''Maps/Dungeon.json'')"
  by (simp add: twoCities_def dungeonOnly_def resolveMapPath_def findMapByName_def string_eval
      Let_def)

subsection \<open>Hover colour\<close>

lemma parseInt16_double:
  assumes "isHex r"
  shows "parseInt16 [r, r] = Fin (of_nat (17 * hexValue r))"
  using assms
  by (auto simp: isHex_def parseInt16_def isSpace_def hexValue_def lowerChar_def upperCase_def
      lowerCase_def Let_def)

text \<open>
  C9. For a colour \<^verbatim>\<open>#rgb\<close> the hover handler computes the channels, and so the fill,
  that it computes for \<^verbatim>\<open>#rrggbb\<close>; for hexadecimal digits each channel is 17 times
  the digit; and the fill is \<^verbatim>\<open>rgba(R, G, B, a)\<close> with \<open>a\<close> the configured hover opacity.
\<close>

theorem hover_color_form_independent:
  "hoverRGB [CHR ''#'', r, g, b] = hoverRGB [CHR ''#'', r, r, g, g, b, b]
   \<and> handleMouseOver st h [CHR ''#'', r, g, b] = handleMouseOver st h [CHR ''#'', r, r, g, g, b, b]
   \<and> (isHex r \<and> isHex g \<and> isHex b \<longrightarrow>
        hoverRGB [CHR ''#'', r, g, b]
          = (Fin (of_nat (17 * hexValue r)), Fin (of_nat (17 * hexValue g)),
             Fin (of_nat (17 * hexValue b))))
   \<and> (\<exists>R G B. hoverRGB hex = (R, G, B)
        \<and> handleMouseOver st h hex
            = ''rgba('' @ NumberToString h R @ '', '' @ NumberToString h G @ '', ''
                @ NumberToString h B @ '', '' @ NumberToString h (hoverOpacity st) @ '')'')"
proof (intro conjI impI)
  show eq: "hoverRGB [CHR ''#'', r, g, b] = hoverRGB [CHR ''#'', r, r, g, g, b, b]"
    by (simp add: hoverRGB_def substring_def)
  show "handleMouseOver st h [CHR ''#'', r, g, b] = handleMouseOver st h [CHR ''#'', r, r, g, g, b, b]"
    unfolding handleMouseOver_def eq ..
  show "hoverRGB [CHR ''#'', r, g, b]
          = (Fin (of_nat (17 * hexValue r)), Fin (of_nat (17 * hexValue g)),
             Fin (of_nat (17 * hexValue b)))"
    if "isHex r \<and> isHex g \<and> isHex b"
    using that by (simp add: hoverRGB_def parseInt16_double)
  show "\<exists>R G B. hoverRGB hex = (R, G, B)
        \<and> handleMouseOver st h hex
            = ''rgba('' @ NumberToString h R @ '', '' @ NumberToString h G @ '', ''
                @ NumberToString h B @ '', '' @ NumberToString h (hoverOpacity st) @ '')''"
    by (cases "hoverRGB hex") (simp add: handleMouseOver_def)
qed

theorem hover_color_form_independent_witness:
  "hoverRGB ''#F00'' = (Fin 255, Fin 0, Fin 0) \<and> hoverRGB ''#FF0000'' = (Fin 255, Fin 0, Fin 0)"
proof -
  note inst = hover_color_form_independent [of "CHR ''F''" "CHR ''0''" "CHR ''0''"]
  have hex: "isHex CHR ''F'' \<and> isHex CHR ''0'' \<and> isHex CHR ''0''"
    by (simp add: isHex_def)
  have val: "hexValue CHR ''F'' = 15" "hexValue CHR ''0'' = 0"
    by (simp_all add: hexValue_def lowerChar_def upperCase_def lowerCase_def)
  have same: "hoverRGB ''#F00'' = hoverRGB ''#FF0000''"
    using inst by (rule conjunct1)
  have "hoverRGB ''#F00''
      = (Fin (of_nat (17 * hexValue CHR ''F'')), Fin (of_nat (17 * hexValue CHR ''0'')),
         Fin (of_nat (17 * hexValue CHR ''0'')))"
    using inst hex by blast
  then have "hoverRGB ''#F00'' = (Fin 255, Fin 0, Fin 0)"
    by (simp add: val)
  then show ?thesis
    using same by simp
qed

subsection \<open>Media overlays\<close>

text \<open>The sample states, evaluated.\<close>

lemmas media_eval = playMapSound_def showMapImage_def playMapVideo_def mediaPath_def
  getOrCreateMapAudioElement_def getOrCreateMapImageElement_def getOrCreateMapVideoElement_def
  stopCurrentMapAudio_def stopCurrentMapImage_def stopCurrentMapVideo_def
  media0_def windowOpen_def createElement_def appendToContainer_def extensionFolderPath_def
  Let_def trim_def isSpace_def toLowerCase_def ascii_def lowerChar_def upperCase_def
  lowerCase_def endsWith_def startsWith_def isLetter_def

lemma rainPlaying_eq:
  "rainPlaying = windowOpen\<lparr>mapAudioElement :=
     Some (createElement\<lparr>attached := True, display := ''none'', paused := False,
       src := Some ''scripts/extensions/third-party/SillyTavern-Interactive Map/sounds/rain.mp3''\<rparr>)\<rparr>"
  by (simp add: rainPlaying_def media_eval)

lemma innShown_eq:
  "innShown = windowOpen\<lparr>
     mapImageElement :=
       Some (createElement\<lparr>attached := True, inContainer := True, display := ''block'',
         src := Some ''scripts/extensions/third-party/SillyTavern-Interactive Map/images/inn.webp''\<rparr>),
     mapImageCloseButton :=
       Some (createElement\<lparr>attached := True, inContainer := True, display := ''block''\<rparr>)\<rparr>"
  by (simp add: innShown_def media_eval)

lemma introPlaying_eq:
  "introPlaying = windowOpen\<lparr>
     mapVideoElement :=
       Some (createElement\<lparr>attached := True, inContainer := True, display := ''block'',
         paused := False, muted := True, autoplay := True,
         src := Some ''scripts/extensions/third-party/SillyTavern-Interactive Map/movies/Intro.MP4''\<rparr>),
     mapVideoCloseButton :=
       Some (createElement\<lparr>attached := True, inContainer := True, display := ''block''\<rparr>),
     resizeListener := True\<rparr>"
  by (simp add: introPlaying_def media_eval)

text \<open>
  C5, as the code has it. When a kind's resource is in the document, its stop function
  releases it: audio is paused and rewound to time zero and keeps its source (audio has
  no close control); an image loses its source and is hidden; a video is paused, loses
  its source and is hidden; the image's and the video's close control is not shown
  afterwards; and the kind's overlay is idle.
\<close>

theorem stop_releases_resource:
  "(\<forall>a. mapAudioElement s = Some a \<and> attached a \<longrightarrow>
       mapAudioElement (stopCurrentMapAudio s) = Some (a\<lparr>paused := True, currentTime := 0\<rparr>)
       \<and> audioIdle (stopCurrentMapAudio s))
   \<and> (\<forall>img. mapImageElement s = Some img \<and> attached img \<longrightarrow>
       mapImageElement (stopCurrentMapImage s) = Some (img\<lparr>src := None, display := ''none''\<rparr>)
       \<and> \<not> shown (mapImageCloseButton (stopCurrentMapImage s))
       \<and> imageIdle (stopCurrentMapImage s))
   \<and> (\<forall>video. mapVideoElement s = Some video \<and> attached video \<longrightarrow>
       mapVideoElement (stopCurrentMapVideo s)
         = Some (video\<lparr>paused := True, src := None, currentTime := 0, display := ''none''\<rparr>)
       \<and> \<not> shown (mapVideoCloseButton (stopCurrentMapVideo s))
       \<and> videoIdle (stopCurrentMapVideo s))"
  by (auto simp: stopCurrentMapAudio_def stopCurrentMapImage_def stopCurrentMapVideo_def
      audioIdle_def imageIdle_def videoIdle_def shown_def Let_def split: option.splits)

theorem stop_releases_resource_witness:
  "audioIdle (stopCurrentMapAudio rainPlaying) \<and> imageIdle (stopCurrentMapImage innShown)
   \<and> videoIdle (stopCurrentMapVideo introPlaying)"
proof (intro conjI)
  have "\<exists>a. mapAudioElement rainPlaying = Some a \<and> attached a"
    by (simp add: rainPlaying_eq createElement_def)
  then show "audioIdle (stopCurrentMapAudio rainPlaying)"
    using stop_releases_resource [of rainPlaying] by blast
  have "\<exists>img. mapImageElement innShown = Some img \<and> attached img"
    by (simp add: innShown_eq createElement_def)
  then show "imageIdle (stopCurrentMapImage innShown)"
    using stop_releases_resource [of innShown] by blast
  have "\<exists>video. mapVideoElement introPlaying = Some video \<and> attached video"
    by (simp add: introPlaying_eq createElement_def)
  then show "videoIdle (stopCurrentMapVideo introPlaying)"
    using stop_releases_resource [of introPlaying] by blast
qed

text \<open>
  The claim's cleared source fails for audio: a sound is started and stopped, and the
  element still has its source.
\<close>

theorem stop_audio_keeps_source_counterexample:
  "\<not> audioIdle rainPlaying
   \<and> map_option src (mapAudioElement (stopCurrentMapAudio rainPlaying))
       = Some (Some ''scripts/extensions/third-party/SillyTavern-Interactive Map/sounds/rain.mp3'')"
  by (simp add: rainPlaying_eq stopCurrentMapAudio_def audioIdle_def createElement_def
      windowOpen_def media0_def)

text \<open>
  C8. Each stop function is idempotent, leaves its kind idle from every state, and
  changes nothing when nothing was ever started.
\<close>

theorem stop_idempotent:
  "stopCurrentMapAudio (stopCurrentMapAudio s) = stopCurrentMapAudio s
   \<and> audioIdle (stopCurrentMapAudio s) \<and> stopCurrentMapAudio media0 = media0
   \<and> stopCurrentMapImage (stopCurrentMapImage s) = stopCurrentMapImage s
   \<and> imageIdle (stopCurrentMapImage s) \<and> stopCurrentMapImage media0 = media0
   \<and> stopCurrentMapVideo (stopCurrentMapVideo s) = stopCurrentMapVideo s
   \<and> videoIdle (stopCurrentMapVideo s) \<and> stopCurrentMapVideo media0 = media0"
  by (auto simp: stopCurrentMapAudio_def stopCurrentMapImage_def stopCurrentMapVideo_def
      audioIdle_def imageIdle_def videoIdle_def shown_def media0_def Let_def split: option.splits)

theorem stop_idempotent_witness:
  "stopCurrentMapVideo (stopCurrentMapVideo introPlaying) = stopCurrentMapVideo introPlaying
   \<and> videoIdle (stopCurrentMapVideo introPlaying)
   \<and> stopCurrentMapAudio (stopCurrentMapAudio rainPlaying) = stopCurrentMapAudio rainPlaying
   \<and> stopCurrentMapImage media0 = media0"
  using stop_idempotent [of introPlaying] stop_idempotent [of rainPlaying] by blast

text \<open>
  C10. With a falsy name (\<^verbatim>\<open>undefined\<close>, \<^verbatim>\<open>null\<close>, the empty string, and also \<open>0\<close>,
  NaN, \<open>false\<close>) each of the three players returns at once and leaves the overlay state
  as it is.
\<close>

theorem falsy_name_is_noop:
  assumes "\<not> truthy name"
  shows "playMapSound h plays name s = s \<and> showMapImage h name s = s
         \<and> playMapVideo h plays name opts s = s"
  using assms by (simp add: playMapSound_def showMapImage_def playMapVideo_def)

theorem falsy_name_is_noop_witness:
  "playMapSound unspecified_host True (JStr []) rainPlaying = rainPlaying
   \<and> showMapImage unspecified_host JNull innShown = innShown
   \<and> playMapVideo unspecified_host True JUndefined
        \<lparr>optMuted = False, optLoop = False, optAutoplay = True\<rparr> introPlaying = introPlaying"
proof (intro conjI)
  have e: "\<not> truthy (JStr [])" and n: "\<not> truthy JNull" and u: "\<not> truthy JUndefined"
    by simp_all
  show "playMapSound unspecified_host True (JStr []) rainPlaying = rainPlaying"
    using falsy_name_is_noop [OF e] by blast
  show "showMapImage unspecified_host JNull innShown = innShown"
    using falsy_name_is_noop [OF n] by blast
  show "playMapVideo unspecified_host True JUndefined
        \<lparr>optMuted = False, optLoop = False, optAutoplay = True\<rparr> introPlaying = introPlaying"
    using falsy_name_is_noop [OF u] by blast
qed

end
